theory Spec2Isabelle
  imports Complex_Main "HOL-Library.Sublist" "HOL-Library.Word"
begin

section \<open>Python values, exceptions and built-ins\<close>

text \<open>
  The pipeline is Python. Exceptions are values: a computation that may raise returns
  \<open>py_exn + 'a\<close>, with \<open>Inl\<close> the exception that leaves it.
\<close>

datatype py_exn =
  ValueError | AttributeError | IndexError | TypeError | ZeroDivisionError
  | OverflowError | NotImplementedError | RequestException

definition seq :: "py_exn + 'a \<Rightarrow> ('a \<Rightarrow> py_exn + 'b) \<Rightarrow> py_exn + 'b" where
  "seq m f = (case m of Inl e \<Rightarrow> Inl e | Inr x \<Rightarrow> f x)"

text \<open>\<open>try: body except (e1, e2, ...): return None\<close>\<close>

definition try_except :: "py_exn list \<Rightarrow> py_exn + 'a option \<Rightarrow> py_exn + 'a option" where
  "try_except caught body =
     (case body of
        Inl e \<Rightarrow> if e \<in> set caught then Inr None else Inl e
      | Inr v \<Rightarrow> Inr v)"

subsection \<open>Integers, ranges and slices\<close>

text \<open>
  Python's \<open>//\<close> and \<open>%\<close> on integers round towards minus infinity, as \<open>div\<close> and \<open>mod\<close> on
  \<open>int\<close> do; dividing by zero raises.
\<close>

definition floordiv :: "int \<Rightarrow> int \<Rightarrow> py_exn + int" where
  "floordiv a b = (if b = 0 then Inl ZeroDivisionError else Inr (a div b))"

definition pymod :: "int \<Rightarrow> int \<Rightarrow> py_exn + int" where
  "pymod a b = (if b = 0 then Inl ZeroDivisionError else Inr (a mod b))"

text \<open>\<open>range(start, stop, step)\<close> as a list; a zero step raises ValueError.\<close>

definition py_range :: "int \<Rightarrow> int \<Rightarrow> int \<Rightarrow> py_exn + int list" where
  "py_range start stop step =
     (if step = 0 then Inl ValueError
      else if step > 0 then
        Inr (map (\<lambda>k. start + int k * step) [0..<nat ((stop - start + step - 1) div step)])
      else
        Inr (map (\<lambda>k. start + int k * step) [0..<nat ((start - stop - step - 1) div (- step))]))"

text \<open>\<open>xs[i:j]\<close>: a negative bound counts from the end, and both bounds are clamped.\<close>

definition slice_bound :: "int \<Rightarrow> int \<Rightarrow> int" where
  "slice_bound n k = (if k < 0 then max 0 (n + k) else min n k)"

definition py_slice :: "'a list \<Rightarrow> int \<Rightarrow> int \<Rightarrow> 'a list" where
  "py_slice xs i j =
     (let n = int (length xs); a = slice_bound n i; b = slice_bound n j
      in take (nat (b - a)) (drop (nat a) xs))"

subsection \<open>Strings\<close>

text \<open>
  A Python \<open>str\<close> is a sequence of Unicode code points, so a text is a list of code
  points. \<open>lit\<close> turns an ASCII literal of the source into one, and \<open>STAR\<close> is the star
  character U+2B50 that extract.py removes from a rating. \<open>isspace\<close> is \<open>str.isspace\<close> on
  one character: the characters that \<open>strip()\<close> and \<open>split()\<close> treat as white space.
\<close>

type_synonym pystr = "nat list"

definition lit :: "string \<Rightarrow> pystr" where
  "lit s = map of_char s"

definition STAR :: pystr where
  "STAR = [11088]"

definition isspace :: "nat \<Rightarrow> bool" where
  "isspace c = (c \<in> set [9, 10, 11, 12, 13, 28, 29, 30, 31, 32, 133, 160, 5760,
                          8232, 8233, 8239, 8287, 12288] \<or> (8192 \<le> c \<and> c \<le> 8202))"

definition str_strip :: "pystr \<Rightarrow> pystr" where
  "str_strip s = rev (dropWhile isspace (rev (dropWhile isspace s)))"

text \<open>
  \<open>sub in s\<close>, and \<open>s.replace(old, new)\<close> for a non-empty \<open>old\<close> (the source passes
  literals only): the occurrences are replaced from the left and do not overlap.
\<close>

fun str_contains :: "pystr \<Rightarrow> pystr \<Rightarrow> bool" where
  "str_contains sub [] = (sub = [])"
| "str_contains sub (c # cs) = (prefix sub (c # cs) \<or> str_contains sub cs)"

fun str_replace :: "pystr \<Rightarrow> pystr \<Rightarrow> pystr \<Rightarrow> pystr" where
  "str_replace [] old new = []"
| "str_replace (c # cs) old new =
     (if old \<noteq> [] \<and> prefix old (c # cs)
      then new @ str_replace (drop (length old) (c # cs)) old new
      else c # str_replace cs old new)"

text \<open>
  \<open>s.split(sep)\<close> raises ValueError on an empty separator and otherwise returns at least
  one field; \<open>s.split()\<close> returns the maximal runs of characters that are not white space,
  so none for a blank text; \<open>xs[0]\<close> raises IndexError on an empty list.
\<close>

fun split_from :: "pystr \<Rightarrow> pystr \<Rightarrow> pystr \<Rightarrow> pystr list" where
  "split_from field [] sep = [rev field]"
| "split_from field (c # cs) sep =
     (if sep \<noteq> [] \<and> prefix sep (c # cs)
      then rev field # split_from [] (drop (length sep) (c # cs)) sep
      else split_from (c # field) cs sep)"

definition str_split :: "pystr \<Rightarrow> pystr \<Rightarrow> py_exn + pystr list" where
  "str_split s sep = (if sep = [] then Inl ValueError else Inr (split_from [] s sep))"

fun words_from :: "pystr \<Rightarrow> pystr \<Rightarrow> pystr list" where
  "words_from word [] = (if word = [] then [] else [rev word])"
| "words_from word (c # cs) =
     (if isspace c then (if word = [] then words_from [] cs else rev word # words_from [] cs)
      else words_from (c # word) cs)"

definition str_split_whitespace :: "pystr \<Rightarrow> pystr list" where
  "str_split_whitespace s = words_from [] s"

definition index0 :: "'a list \<Rightarrow> py_exn + 'a" where
  "index0 xs = (case xs of [] \<Rightarrow> Inl IndexError | x # _ \<Rightarrow> Inr x)"

subsection \<open>Floats and cell values\<close>

text \<open>
  A float is an IEEE 754 double: finite, an infinity or NaN. A finite float is the real
  number it denotes, so the two zeros, which compare equal, are one value.
  \<open>round_to_double\<close> rounds a real to the nearest double, ties to the even significand.
  \<open>binade\<close> finds the exponent \<open>e\<close> between -1074 and 1023 with \<open>2 powi e \<le> a\<close> and
  \<open>a < 2 powi (e + 1)\<close>, by bisection on the twelve bits of that range. The unit in the
  last place is \<open>2 powi (e - 52)\<close>, and \<open>2 powi (- 1074)\<close> for a subnormal number; the
  magnitude is rounded to a multiple of it, and a magnitude of \<open>2 ^ 1024\<close> or more is an
  infinity. \<open>fmul\<close> is the product of two floats: the exact product rounded to a double,
  with the IEEE rules for the special values.
\<close>

datatype pyfloat = Fin real | PosInf | NegInf | NaN

definition round_half_even :: "real \<Rightarrow> int" where
  "round_half_even y =
     (let n = \<lfloor>y\<rfloor>; d = y - of_int n
      in if d < 1 / 2 then n else if 1 / 2 < d then n + 1 else if even n then n else n + 1)"

fun binade_search :: "int list \<Rightarrow> int \<Rightarrow> real \<Rightarrow> int" where
  "binade_search [] e a = e"
| "binade_search (w # ws) e a =
     (if e + w \<le> 1023 \<and> 2 powi (e + w) \<le> a then binade_search ws (e + w) a
      else binade_search ws e a)"

definition binade :: "real \<Rightarrow> int" where
  "binade a = binade_search [2048, 1024, 512, 256, 128, 64, 32, 16, 8, 4, 2, 1] (- 1074) a"

definition signed_or_inf :: "real \<Rightarrow> real \<Rightarrow> pyfloat" where
  "signed_or_inf x v =
     (if 2 ^ 1024 \<le> v then (if x < 0 then NegInf else PosInf)
      else Fin (if x < 0 then - v else v))"

definition round_to_multiple :: "real \<Rightarrow> int \<Rightarrow> pyfloat" where
  "round_to_multiple x q =
     signed_or_inf x (of_int (round_half_even (\<bar>x\<bar> / 2 powi q)) * 2 powi q)"

definition round_to_double :: "real \<Rightarrow> pyfloat" where
  "round_to_double x = round_to_multiple x (max (binade \<bar>x\<bar> - 52) (- 1074))"

definition fsign :: "pyfloat \<Rightarrow> int" where
  "fsign x = (case x of Fin a \<Rightarrow> (if a > 0 then 1 else if a < 0 then - 1 else 0)
              | PosInf \<Rightarrow> 1 | NegInf \<Rightarrow> - 1 | NaN \<Rightarrow> 0)"

definition fmul :: "pyfloat \<Rightarrow> pyfloat \<Rightarrow> pyfloat" where
  "fmul x y =
     (if x = NaN \<or> y = NaN then NaN
      else case (x, y) of
        (Fin a, Fin b) \<Rightarrow> round_to_double (a * b)
      | _ \<Rightarrow> (if fsign x * fsign y = 0 then NaN
              else if fsign x * fsign y > 0 then PosInf else NegInf))"

text \<open>
  A \<open>cell\<close> is a value that a table holds or a normaliser receives: None, a float, an
  integer or a text. \<open>pd.isna\<close> holds of None and of NaN. Looking up a string method
  (\<open>replace\<close>, \<open>split\<close>) succeeds on a text only: on a float or an integer it raises
  AttributeError. \<open>marker_in_str\<close> is the test \<open>marker in str(x)\<close> of
  \<open>transform_rating\<close> for its markers \<open>Invalid\<close> and \<open>Not Rated\<close>: \<open>str\<close> of a number is
  made of digits, a sign, a point, \<open>e\<close>, \<open>inf\<close> or \<open>nan\<close>, and \<open>str(None)\<close> is \<open>None\<close>, so
  the test fails on everything but a text.
\<close>

datatype cell = PyNone | PyFloat pyfloat | PyInt int | PyStr pystr

definition isna :: "cell \<Rightarrow> bool" where
  "isna c = (c = PyNone \<or> c = PyFloat NaN)"

definition str_method :: "cell \<Rightarrow> py_exn + pystr" where
  "str_method c = (case c of PyStr s \<Rightarrow> Inr s | _ \<Rightarrow> Inl AttributeError)"

definition marker_in_str :: "pystr \<Rightarrow> cell \<Rightarrow> bool" where
  "marker_in_str marker c = (case c of PyStr s \<Rightarrow> str_contains marker s | _ \<Rightarrow> False)"

text \<open>
  \<open>extern\<close> is what the normalisers use from outside the repository. For characters
  beyond ASCII, \<open>float\<close>, \<open>int\<close> and \<open>str.isdigit\<close> consult the Unicode character
  database: \<open>uc_decimal\<close> gives the value 0..9 of a decimal digit and \<open>uc_isdigit\<close> tells
  whether \<open>isdigit\<close> accepts the character (superscript digits are accepted, and are no
  decimal digits). \<open>int_max_str_digits\<close> is the interpreter's limit on the length of a
  decimal integer text, None when it has none. \<open>to_datetime\<close> is pandas' parser: it
  returns a timestamp or NaT (None here), or raises. \<open>int32_overflow\<close> is what numpy's
  cast to int32 makes of an integer outside the int32 range when the column is not of
  dtype int64: an int32 (a word of 32 bits, read as a signed number) or an exception.
  That depends on the dtype that pandas gave the column when it was assigned and on the
  platform (the cast of a float64 column, which a column with a null is, is left
  undefined by C; an object column, which a column with an integer beyond 64 bits is,
  raises OverflowError), so the parameter is given that column and the integer.
\<close>

record datetime =
  year :: int
  month :: nat
  day :: nat
  hour :: nat
  minute :: nat
  second :: nat

record extern =
  uc_decimal :: "nat \<Rightarrow> nat option"
  uc_isdigit :: "nat \<Rightarrow> bool"
  int_max_str_digits :: "nat option"
  to_datetime :: "cell \<Rightarrow> py_exn + datetime option"
  int32_overflow :: "cell list \<Rightarrow> int \<Rightarrow> py_exn + 32 word"

text \<open>
  \<open>float(s)\<close> and \<open>int(s)\<close>. Both first bring the text to ASCII (\<open>to_ascii\<close>): a character
  below 127 is kept, any other white space becomes a space, a decimal digit becomes its
  ASCII digit, and anything else ends the text with a question mark, which no number
  contains. Then the white space of C is removed at both ends, and an underscore is
  accepted only between two digits. A float is an optional sign followed by \<open>inf\<close>,
  \<open>infinity\<close> or \<open>nan\<close> in any case, or by digits with an optional point and an optional
  exponent, and its value is the double nearest to the decimal number written; an integer
  is an optional sign followed by digits. Everything else raises ValueError.
\<close>

definition is_ascii_digit :: "nat \<Rightarrow> bool" where
  "is_ascii_digit c = (48 \<le> c \<and> c \<le> 57)"

fun to_ascii :: "extern \<Rightarrow> pystr \<Rightarrow> pystr" where
  "to_ascii U [] = []"
| "to_ascii U (c # cs) =
     (if c < 127 then c # to_ascii U cs
      else if isspace c then 32 # to_ascii U cs
      else case uc_decimal U c of
             Some d \<Rightarrow> (48 + d) # to_ascii U cs
           | None \<Rightarrow> [63])"

definition c_isspace :: "nat \<Rightarrow> bool" where
  "c_isspace c = (c = 32 \<or> (9 \<le> c \<and> c \<le> 13))"

definition c_strip :: "pystr \<Rightarrow> pystr" where
  "c_strip s = rev (dropWhile c_isspace (rev (dropWhile c_isspace s)))"

fun underscores_ok :: "nat \<Rightarrow> pystr \<Rightarrow> bool" where
  "underscores_ok prev [] = (prev \<noteq> 95)"
| "underscores_ok prev (c # cs) =
     ((if c = 95 then is_ascii_digit prev
       else if prev = 95 then is_ascii_digit c else True)
      \<and> underscores_ok c cs)"

definition digits_value :: "pystr \<Rightarrow> nat" where
  "digits_value ds = foldl (\<lambda>a c. 10 * a + (c - 48)) 0 ds"

definition split_sign :: "pystr \<Rightarrow> bool \<times> pystr" where
  "split_sign s =
     (case s of
        [] \<Rightarrow> (False, [])
      | c # r \<Rightarrow> if c = 45 then (True, r) else if c = 43 then (False, r) else (False, s))"

definition lower :: "nat \<Rightarrow> nat" where
  "lower c = (if 65 \<le> c \<and> c \<le> 90 then c + 32 else c)"

definition parse_exponent :: "pystr \<Rightarrow> int option" where
  "parse_exponent s =
     (case s of
        [] \<Rightarrow> Some 0
      | c # r \<Rightarrow>
          if c = 101 \<or> c = 69 then
            (let (neg, ds) = split_sign r in
             if ds \<noteq> [] \<and> list_all is_ascii_digit ds
             then Some (if neg then - int (digits_value ds) else int (digits_value ds))
             else None)
          else None)"

definition scale10 :: "nat \<Rightarrow> int \<Rightarrow> real" where
  "scale10 m e = (if 0 \<le> e then of_nat m * 10 ^ nat e else of_nat m / 10 ^ nat (- e))"

definition parse_decimal :: "pystr \<Rightarrow> real option" where
  "parse_decimal s =
     (let ip = takeWhile is_ascii_digit s;
          r1 = dropWhile is_ascii_digit s;
          (fp, r2) = (case r1 of
                        [] \<Rightarrow> ([], [])
                      | c # r \<Rightarrow> if c = 46
                                then (takeWhile is_ascii_digit r, dropWhile is_ascii_digit r)
                                else ([], r1))
      in if ip = [] \<and> fp = [] then None
         else case parse_exponent r2 of
                None \<Rightarrow> None
              | Some e \<Rightarrow> Some (scale10 (digits_value (ip @ fp)) (e - int (length fp))))"

definition float_of_ascii :: "pystr \<Rightarrow> py_exn + pyfloat" where
  "float_of_ascii s =
     (let (neg, r) = split_sign s; l = map lower r in
      if l = lit ''inf'' \<or> l = lit ''infinity'' then Inr (if neg then NegInf else PosInf)
      else if l = lit ''nan'' then Inr NaN
      else case parse_decimal r of
             None \<Rightarrow> Inl ValueError
           | Some v \<Rightarrow> Inr (round_to_double (if neg then - v else v)))"

definition py_float :: "extern \<Rightarrow> pystr \<Rightarrow> py_exn + pyfloat" where
  "py_float U s =
     (let t = c_strip (to_ascii U s) in
      if underscores_ok 0 t then float_of_ascii (filter (\<lambda>c. c \<noteq> 95) t)
      else Inl ValueError)"

definition py_int :: "extern \<Rightarrow> pystr \<Rightarrow> py_exn + int" where
  "py_int U s =
     (let (neg, r) = split_sign (c_strip (to_ascii U s));
          ds = filter (\<lambda>c. c \<noteq> 95) r
      in if underscores_ok 0 r \<and> ds \<noteq> [] \<and> list_all is_ascii_digit ds
            \<and> (case int_max_str_digits U of None \<Rightarrow> True | Some k \<Rightarrow> length ds \<le> k)
         then Inr (if neg then - int (digits_value ds) else int (digits_value ds))
         else Inl ValueError)"

definition str_isdigit :: "extern \<Rightarrow> pystr \<Rightarrow> bool" where
  "str_isdigit U s =
     (s \<noteq> [] \<and> list_all (\<lambda>c. if c < 128 then is_ascii_digit c else uc_isdigit U c) s)"

section \<open>transform.py: the field normalisers\<close>

text \<open>
  \<open>TransformConfig\<close> is the configuration object that \<open>TransformConfig()\<close> builds; the
  methods of \<open>DataTransformer\<close> read it as \<open>self.config\<close>. Each normaliser is a
  \<open>try\<close> block whose \<open>except\<close> clause returns None for the exception classes it names; any
  other exception would leave the function. Their results are \<open>Optional\<close> values.
\<close>

record transform_config =
  EXCHANGE_RATE :: pyfloat
  VALID_SIZES :: "pystr set"
  VALID_GENDERS :: "pystr set"

definition TransformConfig :: transform_config where
  "TransformConfig =
     \<lparr>EXCHANGE_RATE = Fin 16000,
      VALID_SIZES = set (map lit [''XS'', ''S'', ''M'', ''L'', ''XL'', ''XXL'']),
      VALID_GENDERS = set (map lit [''Men'', ''Women'', ''Unisex''])\<rparr>"

definition transform_price :: "extern \<Rightarrow> transform_config \<Rightarrow> cell \<Rightarrow> py_exn + pyfloat option" where
  "transform_price U config price =
     try_except [ValueError, AttributeError]
       (if isna price then Inr None
        else seq (str_method price) (\<lambda>s.
             seq (py_float U (str_strip (str_replace (str_replace s (lit ''$'') []) (lit '','') [])))
               (\<lambda>cleaned_price. Inr (Some (fmul cleaned_price (EXCHANGE_RATE config))))))"

definition transform_rating :: "extern \<Rightarrow> transform_config \<Rightarrow> cell \<Rightarrow> py_exn + pyfloat option" where
  "transform_rating U config rating =
     try_except [ValueError, AttributeError]
       (if isna rating \<or> marker_in_str (lit ''Invalid'') rating
           \<or> marker_in_str (lit ''Not Rated'') rating
        then Inr None
        else seq (str_method rating) (\<lambda>s.
             seq (str_split s (lit ''/'')) (\<lambda>parts.
             seq (index0 parts) (\<lambda>first.
             seq (py_float U (str_strip first)) (\<lambda>x. Inr (Some x))))))"

definition transform_colors :: "extern \<Rightarrow> transform_config \<Rightarrow> cell \<Rightarrow> py_exn + int option" where
  "transform_colors U config colors =
     try_except [ValueError, AttributeError, IndexError]
       (if isna colors then Inr None
        else seq (str_method colors) (\<lambda>s.
             seq (index0 (str_split_whitespace s)) (\<lambda>num_colors.
               if str_isdigit U num_colors
               then seq (py_int U num_colors) (\<lambda>n. Inr (Some n))
               else Inr None)))"

definition transform_size :: "extern \<Rightarrow> transform_config \<Rightarrow> cell \<Rightarrow> py_exn + pystr option" where
  "transform_size U config size_text =
     try_except [AttributeError]
       (if isna size_text then Inr None
        else seq (str_method size_text) (\<lambda>s.
               let cleaned_size = str_strip (str_replace s (lit ''Size:'') [])
               in Inr (if cleaned_size \<in> VALID_SIZES config then Some cleaned_size else None)))"

definition transform_gender :: "extern \<Rightarrow> transform_config \<Rightarrow> cell \<Rightarrow> py_exn + pystr option" where
  "transform_gender U config gender =
     try_except [AttributeError]
       (if isna gender then Inr None
        else seq (str_method gender) (\<lambda>s.
               let cleaned_gender = str_strip (str_replace s (lit ''Gender:'') [])
               in Inr (if cleaned_gender \<in> VALID_GENDERS config then Some cleaned_gender else None)))"

text \<open>
  \<open>dt.strftime('%Y-%m-%d %H:%M:%S')\<close>. \<open>Timestamp.strftime\<close> first builds a
  \<open>datetime.datetime\<close>, whose years run from 1 to 9999, and raises NotImplementedError for
  a timestamp outside that range; then \<open>%Y\<close> writes the year in decimal without padding
  and the other fields take two digits. On NaT \<open>strftime\<close> raises ValueError.
\<close>

fun decimal :: "nat \<Rightarrow> pystr" where
  "decimal n = (if n < 10 then [48 + n] else decimal (n div 10) @ [48 + n mod 10])"

declare decimal.simps [simp del]

definition digit2 :: "nat \<Rightarrow> pystr" where
  "digit2 n = [48 + n div 10 mod 10, 48 + n mod 10]"

definition strftime :: "datetime \<Rightarrow> py_exn + pystr" where
  "strftime dt =
     (if year dt < 1 \<or> 9999 < year dt then Inl NotImplementedError
      else Inr (decimal (nat (year dt)) @ lit ''-'' @ digit2 (month dt) @ lit ''-''
                @ digit2 (day dt) @ lit '' '' @ digit2 (hour dt) @ lit '':''
                @ digit2 (minute dt) @ lit '':'' @ digit2 (second dt)))"

definition transform_timestamp :: "extern \<Rightarrow> transform_config \<Rightarrow> cell \<Rightarrow> py_exn + pystr option" where
  "transform_timestamp U config timestamp =
     try_except [ValueError, AttributeError]
       (if isna timestamp then Inr None
        else seq (to_datetime U timestamp) (\<lambda>dt.
               case dt of
                 None \<Rightarrow> Inl ValueError
               | Some d \<Rightarrow> seq (strftime d) (\<lambda>formatted. Inr (Some formatted))))"

section \<open>transform.py: the table\<close>

text \<open>
  A DataFrame is its list of column labels and its rows, each row holding one cell per
  column (the row index is not modelled). \<open>DataFrame cols\<close> is the table without rows that
  \<open>pd.DataFrame(columns=cols)\<close> builds, and \<open>DataFrame []\<close> is \<open>pd.DataFrame()\<close>.
  \<open>df.empty\<close> holds when there are no rows or no columns.
\<close>

record dataframe =
  columns :: "pystr list"
  rows :: "cell list list"

definition DataFrame :: "pystr list \<Rightarrow> dataframe" where
  "DataFrame cols = \<lparr>columns = cols, rows = []\<rparr>"

definition df_empty :: "dataframe \<Rightarrow> bool" where
  "df_empty df = (rows df = [] \<or> columns df = [])"

definition required_columns :: "pystr list" where
  "required_columns =
     map lit [''Title'', ''Price'', ''Rating'', ''Colors'', ''Size'', ''Gender'', ''timestamp'']"

text \<open>
  \<open>df[col].apply(f)\<close> calls \<open>f\<close> on the cells of the column from the first row on, and the
  first exception leaves it; \<open>df[col] = values\<close> replaces the column. A normaliser's None
  becomes the null of the column.
\<close>

definition column_index :: "dataframe \<Rightarrow> pystr \<Rightarrow> nat" where
  "column_index df col = length (takeWhile (\<lambda>c. c \<noteq> col) (columns df))"

definition item :: "dataframe \<Rightarrow> pystr \<Rightarrow> cell list \<Rightarrow> cell" where
  "item df col row = row ! column_index df col"

fun map_exn :: "('a \<Rightarrow> py_exn + 'b) \<Rightarrow> 'a list \<Rightarrow> py_exn + 'b list" where
  "map_exn f [] = Inr []"
| "map_exn f (x # xs) = seq (f x) (\<lambda>y. seq (map_exn f xs) (\<lambda>ys. Inr (y # ys)))"

definition box :: "('a \<Rightarrow> cell) \<Rightarrow> ('b \<Rightarrow> py_exn + 'a option) \<Rightarrow> 'b \<Rightarrow> py_exn + cell" where
  "box wrap f x = seq (f x) (\<lambda>v. Inr (case v of None \<Rightarrow> PyNone | Some y \<Rightarrow> wrap y))"

definition series_apply :: "(cell \<Rightarrow> py_exn + cell) \<Rightarrow> pystr \<Rightarrow> dataframe \<Rightarrow> py_exn + cell list" where
  "series_apply f col df = map_exn (\<lambda>row. f (item df col row)) (rows df)"

definition set_column :: "pystr \<Rightarrow> cell list \<Rightarrow> dataframe \<Rightarrow> dataframe" where
  "set_column col vals df =
     df\<lparr>rows := map (\<lambda>(row, v). row[column_index df col := v]) (zip (rows df) vals)\<rparr>"

definition apply_column :: "(cell \<Rightarrow> py_exn + cell) \<Rightarrow> pystr \<Rightarrow> dataframe \<Rightarrow> py_exn + dataframe" where
  "apply_column f col df = seq (series_apply f col df) (\<lambda>vals. Inr (set_column col vals df))"

text \<open>
  \<open>dropna(subset=cols)\<close> keeps the rows with no null in the given columns; the comparison
  with \<open>Unknown Product\<close> keeps the rows whose title is anything else; \<open>drop_duplicates()\<close>
  keeps the first of the rows that agree in every column.
\<close>

definition dropna :: "pystr list \<Rightarrow> dataframe \<Rightarrow> dataframe" where
  "dropna cols df =
     df\<lparr>rows := filter (\<lambda>row. list_all (\<lambda>col. \<not> isna (item df col row)) cols) (rows df)\<rparr>"

definition drop_unknown_product :: "dataframe \<Rightarrow> dataframe" where
  "drop_unknown_product df =
     df\<lparr>rows := filter (\<lambda>row. item df (lit ''Title'') row \<noteq> PyStr (lit ''Unknown Product''))
                    (rows df)\<rparr>"

fun keep_first :: "'a list \<Rightarrow> 'a list \<Rightarrow> 'a list" where
  "keep_first seen [] = []"
| "keep_first seen (r # rs) =
     (if r \<in> set seen then keep_first seen rs else r # keep_first (r # seen) rs)"

definition drop_duplicates :: "dataframe \<Rightarrow> dataframe" where
  "drop_duplicates df = df\<lparr>rows := keep_first [] (rows df)\<rparr>"

text \<open>
  \<open>astype\<close>: of the dtypes it names only \<open>int32\<close> for Colors changes the model's values.
  The columns of text hold \<open>object\<close> already, Price and Rating hold floats, and \<open>string\<close>
  keeps a text and turns None into the null of that dtype. The cast to int32 keeps an
  integer of the int32 range. \<open>assigned\<close> is the Colors column as \<open>apply\<close> returned it,
  before any row was dropped, which is what fixed the dtype of the column: when every
  cell of it is an integer of the int64 range the dtype is int64, and the cast of an
  integer outside int32 wraps around (it keeps the low 32 bits: 3000000000 becomes
  -1294967296); for any other column such an integer becomes the int32 that
  \<open>int32_overflow\<close> names, or the cast raises what it raises. After \<open>dropna\<close> the column
  holds integers only, so the last branch is not reached.
\<close>

definition column_values :: "dataframe \<Rightarrow> pystr \<Rightarrow> cell list" where
  "column_values df col = map (item df col) (rows df)"

definition is_int64 :: "cell \<Rightarrow> bool" where
  "is_int64 c =
     (case c of
        PyInt n \<Rightarrow> - 9223372036854775808 \<le> n \<and> n \<le> 9223372036854775807
      | _ \<Rightarrow> False)"

definition to_int32 :: "extern \<Rightarrow> cell list \<Rightarrow> cell \<Rightarrow> py_exn + cell" where
  "to_int32 U assigned c =
     (case c of
        PyInt n \<Rightarrow>
          if - 2147483648 \<le> n \<and> n \<le> 2147483647 then Inr (PyInt n)
          else if list_all is_int64 assigned
          then Inr (PyInt (sint (word_of_int n :: 32 word)))
          else seq (int32_overflow U assigned n) (\<lambda>w. Inr (PyInt (sint w)))
      | _ \<Rightarrow> Inl TypeError)"

definition astype :: "extern \<Rightarrow> cell list \<Rightarrow> dataframe \<Rightarrow> py_exn + dataframe" where
  "astype U assigned df = apply_column (to_int32 U assigned) (lit ''Colors'') df"

text \<open>
  \<open>DataTransformer.transform_dataframe\<close>, on values.
\<close>

definition transform_dataframe :: "extern \<Rightarrow> transform_config \<Rightarrow> dataframe \<Rightarrow> py_exn + dataframe" where
  "transform_dataframe U config df =
     (if df_empty df \<or> \<not> list_all (\<lambda>col. col \<in> set (columns df)) required_columns
      then Inr (DataFrame required_columns)
      else
        seq (apply_column (box PyFloat (transform_price U config)) (lit ''Price'') df) (\<lambda>d1.
        seq (apply_column (box PyFloat (transform_rating U config)) (lit ''Rating'') d1) (\<lambda>d2.
        seq (apply_column (box PyInt (transform_colors U config)) (lit ''Colors'') d2) (\<lambda>d3.
        seq (apply_column (box PyStr (transform_size U config)) (lit ''Size'') d3) (\<lambda>d4.
        seq (apply_column (box PyStr (transform_gender U config)) (lit ''Gender'') d4) (\<lambda>d5.
        seq (apply_column (box PyStr (transform_timestamp U config)) (lit ''timestamp'') d5) (\<lambda>d6.
          astype U (column_values d6 (lit ''Colors''))
            (drop_duplicates
              (drop_unknown_product
                (dropna (map lit [''Title'', ''Price'', ''Rating'', ''Colors'', ''Size'', ''Gender''])
                   d6))))))))))"

subsection \<open>The same function on objects in a store\<close>

text \<open>
  A DataFrame is a mutable object, and \<open>df_cleaned[col] = ...\<close> writes to it. To state what
  happens to the argument, here is the same function on references into a store of table
  objects: \<open>df.copy()\<close> and every operation that returns a table allocate a new object, a
  column assignment updates the object it is applied to. The copy, once its six columns
  are assigned, stays in the store as \<open>df_applied\<close>; the cast reads from it the Colors
  column as it was assigned.
\<close>

type_synonym heap = "dataframe list"

type_synonym 'a prog = "heap \<Rightarrow> (py_exn + 'a) \<times> heap"

definition and_then :: "'a prog \<Rightarrow> ('a \<Rightarrow> 'b prog) \<Rightarrow> 'b prog" where
  "and_then m f h = (case m h of (Inl e, h') \<Rightarrow> (Inl e, h') | (Inr x, h') \<Rightarrow> f x h')"

definition new_object :: "dataframe \<Rightarrow> nat prog" where
  "new_object d h = (Inr (length h), h @ [d])"

definition deref :: "nat \<Rightarrow> dataframe prog" where
  "deref r h = (Inr (h ! r), h)"

definition raise_or_return :: "py_exn + 'a \<Rightarrow> 'a prog" where
  "raise_or_return v h = (v, h)"

definition setitem :: "nat \<Rightarrow> pystr \<Rightarrow> cell list \<Rightarrow> unit prog" where
  "setitem r col vals h = (Inr (), h[r := set_column col vals (h ! r)])"

definition apply_in_place :: "(cell \<Rightarrow> py_exn + cell) \<Rightarrow> pystr \<Rightarrow> nat \<Rightarrow> unit prog" where
  "apply_in_place f col r =
     and_then (deref r) (\<lambda>d. and_then (raise_or_return (series_apply f col d)) (\<lambda>vals. setitem r col vals))"

definition derive :: "(dataframe \<Rightarrow> py_exn + dataframe) \<Rightarrow> nat \<Rightarrow> nat prog" where
  "derive g r = and_then (deref r) (\<lambda>d. and_then (raise_or_return (g d)) new_object)"

definition transform_dataframe_obj :: "extern \<Rightarrow> transform_config \<Rightarrow> nat \<Rightarrow> nat prog" where
  "transform_dataframe_obj U config df =
     and_then (deref df) (\<lambda>d.
       if df_empty d \<or> \<not> list_all (\<lambda>col. col \<in> set (columns d)) required_columns
       then new_object (DataFrame required_columns)
       else
         and_then (derive Inr df) (\<lambda>df_applied.
         and_then (apply_in_place (box PyFloat (transform_price U config)) (lit ''Price'') df_applied) (\<lambda>_.
         and_then (apply_in_place (box PyFloat (transform_rating U config)) (lit ''Rating'') df_applied) (\<lambda>_.
         and_then (apply_in_place (box PyInt (transform_colors U config)) (lit ''Colors'') df_applied) (\<lambda>_.
         and_then (apply_in_place (box PyStr (transform_size U config)) (lit ''Size'') df_applied) (\<lambda>_.
         and_then (apply_in_place (box PyStr (transform_gender U config)) (lit ''Gender'') df_applied) (\<lambda>_.
         and_then (apply_in_place (box PyStr (transform_timestamp U config)) (lit ''timestamp'') df_applied) (\<lambda>_.
         and_then (derive (\<lambda>d. Inr (dropna (map lit [''Title'', ''Price'', ''Rating'', ''Colors'', ''Size'', ''Gender'']) d))
                 df_applied) (\<lambda>df_cleaned.
         and_then (derive (\<lambda>d. Inr (drop_unknown_product d)) df_cleaned) (\<lambda>df_cleaned.
         and_then (derive (\<lambda>d. Inr (drop_duplicates d)) df_cleaned) (\<lambda>df_cleaned.
         and_then (deref df_applied) (\<lambda>applied.
           derive (astype U (column_values applied (lit ''Colors''))) df_cleaned))))))))))))"

section \<open>extract.py: the scraper's configuration and page chunks\<close>

text \<open>
  \<open>ScraperConfig\<close>: of its fields the page count, the worker count and the chunk size that
  \<open>__post_init__\<close> derives from them are modelled. Adding the comparison \<open>NUM_PAGES %
  MAX_WORKERS > 0\<close> to an integer adds 1 when it is true.
\<close>

record scraper_config =
  NUM_PAGES :: int
  MAX_WORKERS :: int
  CHUNK_SIZE :: int

definition ScraperConfig :: "int \<Rightarrow> int \<Rightarrow> py_exn + scraper_config" where
  "ScraperConfig num_pages max_workers =
     seq (floordiv num_pages max_workers) (\<lambda>q.
     seq (pymod num_pages max_workers) (\<lambda>r.
       Inr \<lparr>NUM_PAGES = num_pages, MAX_WORKERS = max_workers,
            CHUNK_SIZE = q + (if r > 0 then 1 else 0)\<rparr>))"

text \<open>
  The first two statements of \<open>ProductScraper.scrape\<close>:
  \<^verbatim>\<open>pages = list(range(1, NUM_PAGES + 1))\<close> and
  \<^verbatim>\<open>chunks = [pages[i:i + CHUNK_SIZE] for i in range(0, len(pages), CHUNK_SIZE)]\<close>.
\<close>

definition page_chunks :: "scraper_config \<Rightarrow> py_exn + int list list" where
  "page_chunks config =
     (let pages = [1..NUM_PAGES config] in
      seq (py_range 0 (int (length pages)) (CHUNK_SIZE config)) (\<lambda>starts.
        Inr (map (\<lambda>i. py_slice pages i (i + CHUNK_SIZE config)) starts)))"

section \<open>extract.py: cards, pages and the harvest\<close>

text \<open>
  What the markup parser finds in one card: the text of the \<open>h3.product-title\<close> element
  if there is one, the \<open>div.price-container\<close> if there is one and in it the text of
  \<open>span.price\<close> if there is one, and the text of every \<open>p\<close> element with the descriptor
  style. A card is its \<open>div.product-details\<close>, if it has one; a page is the list of the
  cards inside \<open>div#collectionList\<close>, if that element exists.
\<close>

record product_details =
  title :: "pystr option"
  price_container :: "pystr option option"
  paragraphs :: "pystr list"

type_synonym card = "product_details option"

type_synonym page = "card list option"

record additional_info =
  Rating :: "pystr option"
  Colors :: "pystr option"
  Size :: "pystr option"
  Gender :: "pystr option"

record product = additional_info +
  Title :: "pystr option"
  Price :: "pystr option"
  timestamp :: pystr

text \<open>
  \<open>_get_basic_info\<close>, \<open>_get_additional_info\<close> (its loop body is \<open>classify_paragraph\<close>) and
  \<open>extract_product_details\<close>, which catches every exception and returns None then. The
  dictionary of a product has the keys Title, Price, Rating, Colors, Size, Gender and
  timestamp, in this order.
\<close>

definition get_basic_info :: "product_details \<Rightarrow> pystr option \<times> pystr option" where
  "get_basic_info details =
     (let price = (case price_container details of None \<Rightarrow> None | Some price_span \<Rightarrow> price_span)
      in (map_option str_strip (title details), map_option str_strip price))"

definition classify_paragraph :: "additional_info \<Rightarrow> pystr \<Rightarrow> py_exn + additional_info" where
  "classify_paragraph info p =
     (let text = str_strip p in
      if str_contains (lit ''Rating:'') text then
        seq (str_split (str_replace (str_replace text STAR []) (lit ''Rating:'') []) (lit ''/''))
          (\<lambda>parts. seq (index0 parts) (\<lambda>first. Inr (info\<lparr>Rating := Some (str_strip first)\<rparr>)))
      else if str_contains (lit ''Colors'') text then Inr (info\<lparr>Colors := Some text\<rparr>)
      else if str_contains (lit ''Size:'') text then Inr (info\<lparr>Size := Some text\<rparr>)
      else if str_contains (lit ''Gender:'') text then Inr (info\<lparr>Gender := Some text\<rparr>)
      else Inr info)"

fun paragraph_loop :: "additional_info \<Rightarrow> pystr list \<Rightarrow> py_exn + additional_info" where
  "paragraph_loop info [] = Inr info"
| "paragraph_loop info (p # ps) = seq (classify_paragraph info p) (\<lambda>info'. paragraph_loop info' ps)"

definition get_additional_info :: "pystr list \<Rightarrow> py_exn + additional_info" where
  "get_additional_info p_tags =
     paragraph_loop \<lparr>Rating = None, Colors = None, Size = None, Gender = None\<rparr> p_tags"

definition extract_product_details :: "pystr \<Rightarrow> card \<Rightarrow> product option" where
  "extract_product_details now soup =
     (case soup of
        None \<Rightarrow> None
      | Some details \<Rightarrow>
          (let (t, p) = get_basic_info details in
           case get_additional_info (paragraphs details) of
             Inl e \<Rightarrow> None
           | Inr info \<Rightarrow> Some (additional_info.extend info
                                  (product.fields t p now))))"

text \<open>
  The world outside the process. \<open>fetch p\<close> is \<open>session.get\<close> with \<open>raise_for_status\<close> for
  page \<open>p\<close> (the base address for page 1, with the suffix \<open>/page{p}\<close> otherwise), already
  parsed; it raises on a transport error, a timeout or an error status. \<open>clock p i\<close> is
  \<open>datetime.now().isoformat()\<close> when card \<open>i\<close> of page \<open>p\<close> is extracted. \<open>completion\<close> is
  the order in which the futures of the thread pool complete, as chunk indices. The last
  four fields are the file write of the raw table and the three methods of \<open>DataLoader\<close>,
  which catch their own exceptions and return a truth value.
\<close>

record world =
  fetch :: "int \<Rightarrow> py_exn + page"
  clock :: "int \<Rightarrow> nat \<Rightarrow> pystr"
  completion :: "nat list"
  write_raw_csv :: "dataframe \<Rightarrow> py_exn + unit"
  load_to_csv :: "dataframe \<Rightarrow> bool"
  load_to_google_sheets :: "dataframe \<Rightarrow> bool"
  load_to_postgres :: "dataframe \<Rightarrow> bool"

text \<open>
  \<open>_process_page_content\<close>, \<open>_scrape_single_page\<close> (any exception gives the empty list),
  \<open>scrape_chunk\<close> and \<open>scrape\<close>. \<open>ThreadPoolExecutor\<close> raises ValueError when
  \<open>max_workers\<close> is not positive; an exception in the body of \<open>scrape\<close> gives the empty
  table.
\<close>

definition process_page_content :: "world \<Rightarrow> page \<Rightarrow> int \<Rightarrow> product list" where
  "process_page_content w content page_no =
     (case content of
        None \<Rightarrow> []
      | Some product_cards \<Rightarrow>
          concat (map (\<lambda>(i, product_card). case extract_product_details (clock w page_no i) product_card of
                                      None \<Rightarrow> [] | Some product_data \<Rightarrow> [product_data])
                      (zip [0..<length product_cards] product_cards)))"

definition scrape_single_page :: "world \<Rightarrow> int \<Rightarrow> product list" where
  "scrape_single_page w page_no =
     (case fetch w page_no of
        Inl e \<Rightarrow> []
      | Inr content \<Rightarrow> process_page_content w content page_no)"

definition scrape_chunk :: "world \<Rightarrow> int list \<Rightarrow> product list" where
  "scrape_chunk w pages = concat (map (scrape_single_page w) pages)"

definition text_cell :: "pystr option \<Rightarrow> cell" where
  "text_cell v = (case v of None \<Rightarrow> PyNone | Some s \<Rightarrow> PyStr s)"

definition product_row :: "product \<Rightarrow> cell list" where
  "product_row p =
     [text_cell (Title p), text_cell (Price p), text_cell (Rating p), text_cell (Colors p),
      text_cell (Size p), text_cell (Gender p), PyStr (timestamp p)]"

definition DataFrame_of_products :: "product list \<Rightarrow> dataframe" where
  "DataFrame_of_products all_products =
     \<lparr>columns = required_columns, rows = map product_row all_products\<rparr>"

definition scrape :: "world \<Rightarrow> scraper_config \<Rightarrow> dataframe" where
  "scrape w config =
     (case seq (page_chunks config) (\<lambda>chunks.
             if MAX_WORKERS config \<le> 0 then Inl ValueError
             else Inr (concat (map (\<lambda>i. scrape_chunk w (chunks ! i))
                                   (filter (\<lambda>i. i < length chunks) (completion w))))) of
        Inl e \<Rightarrow> DataFrame []
      | Inr all_products \<Rightarrow>
          if all_products = [] then DataFrame [] else DataFrame_of_products all_products)"

section \<open>main.py: the pipeline\<close>

text \<open>
  \<open>run_etl_pipeline\<close> returns its truth value; the second component lists the writes it
  has attempted, in order. It builds \<open>ScraperConfig()\<close> with the defaults of 50 pages and
  10 workers, and any exception makes it return False.
\<close>

datatype event =
  WriteRawCsv dataframe | LoadToCsv dataframe | LoadToGoogleSheets dataframe
  | LoadToPostgres dataframe

definition run_etl_pipeline :: "extern \<Rightarrow> world \<Rightarrow> bool \<times> event list" where
  "run_etl_pipeline U w =
     (case ScraperConfig 50 10 of
        Inl e \<Rightarrow> (False, [])
      | Inr scraper_config \<Rightarrow>
          (let df_raw = scrape w scraper_config in
           if df_empty df_raw then (False, [])
           else case write_raw_csv w df_raw of
             Inl e \<Rightarrow> (False, [WriteRawCsv df_raw])
           | Inr _ \<Rightarrow>
               (case transform_dataframe U TransformConfig df_raw of
                  Inl e \<Rightarrow> (False, [WriteRawCsv df_raw])
                | Inr df_transformed \<Rightarrow>
                    if df_empty df_transformed then (False, [WriteRawCsv df_raw])
                    else
                      (let csv_success = load_to_csv w df_transformed;
                           sheets_success = load_to_google_sheets w df_transformed;
                           postgres_success = load_to_postgres w df_transformed
                       in (csv_success \<and> sheets_success \<and> postgres_success,
                           [WriteRawCsv df_raw, LoadToCsv df_transformed,
                            LoadToGoogleSheets df_transformed, LoadToPostgres df_transformed])))))"

section \<open>Reference definitions and example inputs\<close>

text \<open>
  A well-formed table has unique column labels and rows as long as its list of columns.
\<close>

definition wf_dataframe :: "dataframe \<Rightarrow> bool" where
  "wf_dataframe df =
     (distinct (columns df) \<and> list_all (\<lambda>row. length row = length (columns df)) (rows df))"

text \<open>
  A dollar amount, as the specification words it: an optional \<open>$\<close>, digits with optional
  thousands separators (commas, after the first digit), and optionally a point followed
  by digits. \<open>dollar_amount\<close> is its value, None for any other text.
\<close>

definition dollar_amount :: "pystr \<Rightarrow> real option" where
  "dollar_amount s =
     (let t = (case s of [] \<Rightarrow> [] | c # r \<Rightarrow> if c = 36 then r else s);
          whole = takeWhile (\<lambda>c. c \<noteq> 46) t;
          rest = dropWhile (\<lambda>c. c \<noteq> 46) t;
          frac = tl rest
      in if list_all (\<lambda>c. is_ascii_digit c \<or> c = 44) whole
            \<and> (case whole of [] \<Rightarrow> False | c # _ \<Rightarrow> is_ascii_digit c)
            \<and> list_all is_ascii_digit frac \<and> (rest = [] \<or> frac \<noteq> [])
         then Some (real (digits_value (filter is_ascii_digit whole))
                    + real (digits_value frac) / 10 ^ length frac)
         else None)"

text \<open>
  The classification of a trimmed descriptor paragraph by the first trigger it contains,
  the text stored for a rating, and the last paragraph of a class.
\<close>

datatype field = RatingField | ColorsField | SizeField | GenderField

definition trigger_of :: "pystr \<Rightarrow> field option" where
  "trigger_of text =
     (if str_contains (lit ''Rating:'') text then Some RatingField
      else if str_contains (lit ''Colors'') text then Some ColorsField
      else if str_contains (lit ''Size:'') text then Some SizeField
      else if str_contains (lit ''Gender:'') text then Some GenderField
      else None)"

definition rating_text :: "pystr \<Rightarrow> pystr" where
  "rating_text text =
     str_strip (takeWhile (\<lambda>c. c \<noteq> 47)
                  (str_replace (str_replace text STAR []) (lit ''Rating:'') []))"

definition last_with :: "field \<Rightarrow> pystr list \<Rightarrow> pystr option" where
  "last_with f p_tags =
     (case filter (\<lambda>text. trigger_of text = Some f) (map str_strip p_tags) of
        [] \<Rightarrow> None
      | t # ts \<Rightarrow> Some (last (t # ts)))"

text \<open>
  Concrete inputs for the examples: a date parser for the ISO form of 19 characters, an
  excerpt of the character database (the Arabic-Indic digits and three superscripts), a
  raw record with the given title, price, rating and colours, and a world in which every
  fetch fails. The cast of the examples gives the least int32 for a column with a null,
  as the conversion of a float64 does on x86-64, wraps around for a column of integers
  from 0 to 18446744073709551615, which has the dtype uint64, and raises OverflowError
  for any other column.
\<close>

definition iso_datetime :: "cell \<Rightarrow> py_exn + datetime option" where
  "iso_datetime c =
     (case c of
        PyStr s \<Rightarrow>
          if length s = 19
             \<and> list_all is_ascii_digit
                  (take 4 s @ take 2 (drop 5 s) @ take 2 (drop 8 s) @ take 2 (drop 11 s)
                   @ take 2 (drop 14 s) @ take 2 (drop 17 s))
          then Inr (Some \<lparr>year = int (digits_value (take 4 s)),
                           month = digits_value (take 2 (drop 5 s)),
                           day = digits_value (take 2 (drop 8 s)),
                           hour = digits_value (take 2 (drop 11 s)),
                           minute = digits_value (take 2 (drop 14 s)),
                           second = digits_value (take 2 (drop 17 s))\<rparr>)
          else Inl ValueError
      | _ \<Rightarrow> Inl ValueError)"

definition is_uint64 :: "cell \<Rightarrow> bool" where
  "is_uint64 c = (case c of PyInt n \<Rightarrow> 0 \<le> n \<and> n \<le> 18446744073709551615 | _ \<Rightarrow> False)"

definition example_extern :: extern where
  "example_extern =
     \<lparr>uc_decimal = (\<lambda>c. if 1632 \<le> c \<and> c \<le> 1641 then Some (c - 1632) else None),
      uc_isdigit = (\<lambda>c. c \<in> {178, 179, 185} \<or> (1632 \<le> c \<and> c \<le> 1641)),
      int_max_str_digits = Some 4300,
      to_datetime = iso_datetime,
      int32_overflow = (\<lambda>assigned n.
         if list_ex isna assigned then Inr (word_of_int (- 2147483648))
         else if list_all is_uint64 assigned then Inr (word_of_int n)
         else Inl OverflowError)\<rparr>"

definition example_row :: "string \<Rightarrow> string \<Rightarrow> string \<Rightarrow> string \<Rightarrow> cell list" where
  "example_row t price rating colors =
     [PyStr (lit t), PyStr (lit price), PyStr (lit rating), PyStr (lit colors),
      PyStr (lit ''Size: M''), PyStr (lit ''Gender: Men''), PyStr (lit ''2024-01-01T10:00:00'')]"

definition example_table :: "cell list list \<Rightarrow> dataframe" where
  "example_table rs = \<lparr>columns = required_columns, rows = rs\<rparr>"

definition offline_world :: world where
  "offline_world =
     \<lparr>fetch = (\<lambda>p. Inl RequestException),
      clock = (\<lambda>p i. lit ''2024-01-01T10:00:00''),
      completion = [1, 0, 2, 3, 4, 5, 6, 7, 8, 9],
      write_raw_csv = (\<lambda>df. Inr ()),
      load_to_csv = (\<lambda>df. True),
      load_to_google_sheets = (\<lambda>df. True),
      load_to_postgres = (\<lambda>df. True)\<rparr>"

text \<open>
  \<open>frames n m Q\<close>: run in a store of at least \<open>n\<close> objects, \<open>m\<close> only extends the store,
  leaves its first \<open>n\<close> objects as they are, and returns a value satisfying \<open>Q\<close>.
\<close>

definition frames :: "nat \<Rightarrow> 'a prog \<Rightarrow> ('a \<Rightarrow> bool) \<Rightarrow> bool" where
  "frames n m Q =
     (\<forall>h. n \<le> length h \<longrightarrow>
        (case m h of
           (res, h') \<Rightarrow> length h \<le> length h' \<and> take n h' = take n h
                        \<and> (case res of Inl e \<Rightarrow> True | Inr x \<Rightarrow> Q x)))"

section \<open>Properties of the page chunks\<close>

lemma py_slice_window:
  assumes "0 \<le> i" "0 < c"
  shows "py_slice xs i (i + c) = take (nat c) (drop (nat i) xs)"
proof -
  let ?n = "int (length xs)"
  have a: "slice_bound ?n i = min ?n i" and b: "slice_bound ?n (i + c) = min ?n (i + c)"
    using assms by (simp_all add: slice_bound_def)
  show ?thesis
  proof (cases "i + c \<le> ?n")
    case True
    then have "nat (min ?n (i + c) - min ?n i) = nat c" "nat (min ?n i) = nat i"
      using assms by simp_all
    then show ?thesis by (simp add: py_slice_def a b)
  next
    case False
    then have "length (drop (nat (min ?n i)) xs) \<le> nat (min ?n (i + c) - min ?n i)"
      and "length (drop (nat i) xs) \<le> nat c" and "drop (nat (min ?n i)) xs = drop (nat i) xs"
      using assms by (auto simp: min_def)
    then show ?thesis by (simp add: py_slice_def a b)
  qed
qed

lemma py_range_pos:
  assumes "0 < c"
  shows "py_range 0 n c = Inr (map (\<lambda>k. int k * c) [0..<nat ((n + c - 1) div c)])"
  using assms by (simp add: py_range_def)

lemma page_chunks_windows:
  assumes "0 < CHUNK_SIZE cfg"
  shows "page_chunks cfg =
    Inr (map (\<lambda>k. take (nat (CHUNK_SIZE cfg)) (drop (k * nat (CHUNK_SIZE cfg)) [1..NUM_PAGES cfg]))
           [0..<nat ((int (length [1..NUM_PAGES cfg]) + CHUNK_SIZE cfg - 1) div CHUNK_SIZE cfg)])"
  using assms
  by (simp add: page_chunks_def Let_def seq_def py_range_pos py_slice_window nat_mult_distrib del: length_upto)

lemma ScraperConfig_pos:
  assumes "1 \<le> w"
  shows "ScraperConfig n w = Inr \<lparr>NUM_PAGES = n, MAX_WORKERS = w,
            CHUNK_SIZE = n div w + (if n mod w > 0 then 1 else 0)\<rparr>"
  using assms by (simp add: ScraperConfig_def floordiv_def pymod_def seq_def)

lemma round_up_bounds:
  fixes n c :: int
  assumes "0 < c"
  defines "m \<equiv> n div c + (if n mod c > 0 then 1 else 0)"
  shows "(m - 1) * c < n" and "n \<le> m * c"
proof -
  have d: "n = c * (n div c) + n mod c" by simp
  have r: "0 \<le> n mod c" "n mod c < c" using assms by simp_all
  show "(m - 1) * c < n"
  proof (cases "n mod c > 0")
    case True
    then have "(m - 1) * c = c * (n div c)" by (simp add: m_def)
    with d True show ?thesis by linarith
  next
    case False
    then have "(m - 1) * c = c * (n div c) - c" by (simp add: m_def algebra_simps)
    with d r assms show ?thesis by linarith
  qed
  show "n \<le> m * c"
  proof (cases "n mod c > 0")
    case True
    then have "m * c = c * (n div c) + c" by (simp add: m_def algebra_simps)
    with d r show ?thesis by linarith
  next
    case False
    then have "m * c = c * (n div c)" by (simp add: m_def)
    with d r False show ?thesis by linarith
  qed
qed

lemma round_up_ceiling:
  assumes "0 < w"
  shows "n div w + (if n mod w > 0 then 1 else 0) = \<lceil>real_of_int n / real_of_int w\<rceil>"
proof -
  let ?m = "n div w + (if n mod w > 0 then 1 else 0)"
  have "real_of_int (?m - 1) * real_of_int w < real_of_int n"
    using round_up_bounds(1) [OF assms, of n] by (metis of_int_less_iff of_int_mult)
  moreover have "real_of_int n \<le> real_of_int ?m * real_of_int w"
    using round_up_bounds(2) [OF assms, of n] by (metis of_int_le_iff of_int_mult)
  ultimately have "real_of_int ?m - 1 < real_of_int n / real_of_int w"
    and "real_of_int n / real_of_int w \<le> real_of_int ?m"
    using assms by (simp_all add: field_simps)
  then show ?thesis by (intro ceiling_unique [symmetric]) simp_all
qed

lemma round_up_shift:
  fixes n c :: int
  assumes "0 < c"
  shows "(n + c - 1) div c = n div c + (if n mod c > 0 then 1 else 0)"
proof (cases "n mod c > 0")
  case True
  have "n + c - 1 = c * (n div c + 1) + (n mod c - 1)" by (simp add: algebra_simps)
  moreover have "0 \<le> n mod c - 1" "n mod c - 1 < c" using True assms pos_mod_bound [of c n] by linarith+
  ultimately have "(n + c - 1) div c = n div c + 1" by (rule int_div_pos_eq)
  with True show ?thesis by simp
next
  case False
  then have z: "n mod c = 0" using assms pos_mod_sign [of c n] by linarith
  have "n = c * (n div c) + n mod c" by simp
  with z have "n + c - 1 = c * (n div c) + (c - 1)" by linarith
  moreover have "0 \<le> c - 1" "c - 1 < c" using assms by simp_all
  ultimately have "(n + c - 1) div c = n div c" by (rule int_div_pos_eq)
  with False show ?thesis by simp
qed

lemma concat_windows:
  "concat (map (\<lambda>k. take c (drop (k * c) xs)) [0..<m]) = take (m * c) xs"
proof (induction m)
  case 0
  then show ?case by simp
next
  case (Suc m)
  have "take (m * c) xs @ take c (drop (m * c) xs) = take (m * c + c) xs"
    by (simp add: take_add)
  with Suc show ?case by (simp add: add.commute)
qed


text \<open>
  C4 (as the code has it). For at least one page and at least one worker, the chunk size is
  \<open>ceil(NUM_PAGES / MAX_WORKERS)\<close> and the pages \<open>1..NUM_PAGES\<close> are cut into
  \<open>ceil(NUM_PAGES / CHUNK_SIZE)\<close> chunks, which is at least one and at most \<open>MAX_WORKERS\<close>
  (not always equal to it). The chunks in order concatenate to \<open>1..NUM_PAGES\<close>, so they are
  contiguous and cover the range with no gap and no overlap; every chunk but the last has
  exactly \<open>CHUNK_SIZE\<close> pages and the last has between one and \<open>CHUNK_SIZE\<close>. With 50
  pages and 10 workers there are 10 chunks of 5 pages.
\<close>

theorem page_chunks_partition:
  assumes "1 \<le> n" and "1 \<le> w"
  shows "(\<exists>cfg cs. ScraperConfig n w = Inr cfg
           \<and> CHUNK_SIZE cfg = \<lceil>real_of_int n / real_of_int w\<rceil>
           \<and> page_chunks cfg = Inr cs
           \<and> concat cs = [1..n]
           \<and> int (length cs) = \<lceil>real_of_int n / real_of_int (CHUNK_SIZE cfg)\<rceil>
           \<and> 1 \<le> length cs \<and> int (length cs) \<le> w
           \<and> (\<forall>k. Suc k < length cs \<longrightarrow> int (length (cs ! k)) = CHUNK_SIZE cfg)
           \<and> 1 \<le> length (last cs) \<and> int (length (last cs)) \<le> CHUNK_SIZE cfg)
         \<and> seq (ScraperConfig 50 10) page_chunks =
             Inr [[1, 2, 3, 4, 5], [6, 7, 8, 9, 10], [11, 12, 13, 14, 15], [16, 17, 18, 19, 20],
                  [21, 22, 23, 24, 25], [26, 27, 28, 29, 30], [31, 32, 33, 34, 35],
                  [36, 37, 38, 39, 40], [41, 42, 43, 44, 45], [46, 47, 48, 49, 50]]"
proof -
  define c where "c = n div w + (if n mod w > 0 then 1 else 0)"
  define cfg where "cfg = \<lparr>NUM_PAGES = n, MAX_WORKERS = w, CHUNK_SIZE = c\<rparr>"
  define m where "m = n div c + (if n mod c > 0 then 1 else 0)"
  define cs where "cs = map (\<lambda>k. take (nat c) (drop (k * nat c) [1..n])) [0..<nat m]"
  have w: "0 < w" using assms by simp
  have nc: "n \<le> c * w" using round_up_bounds(2) [OF w, of n] by (simp add: c_def)
  have c: "0 < c"
  proof (rule ccontr)
    assume "\<not> 0 < c"
    then have "c * w \<le> 0" using w by (simp add: mult_le_0_iff)
    with nc assms show False by simp
  qed
  have lo: "(m - 1) * c < n" and hi: "n \<le> m * c"
    using round_up_bounds [OF c, of n] by (simp_all add: m_def)
  have m1: "1 \<le> m"
  proof (rule ccontr)
    assume "\<not> 1 \<le> m"
    then have "m * c \<le> 0" using c by (simp add: mult_le_0_iff)
    with hi assms show False by simp
  qed
  have mw: "m \<le> w"
  proof (rule ccontr)
    assume "\<not> m \<le> w"
    then have "w \<le> m - 1" by simp
    then have "w * c \<le> (m - 1) * c" using c by (simp add: mult_right_mono)
    with lo nc show False by (simp add: mult.commute)
  qed
  have cfg: "ScraperConfig n w = Inr cfg"
    using assms by (simp add: ScraperConfig_pos cfg_def c_def)
  have size: "CHUNK_SIZE cfg = \<lceil>real_of_int n / real_of_int w\<rceil>"
    using round_up_ceiling [OF w, of n] by (simp add: cfg_def c_def)
  have len: "int (length [1..n]) = n" using assms by simp
  have chunks: "page_chunks cfg = Inr cs"
    using c page_chunks_windows [of cfg] round_up_shift [OF c, of n]
    by (simp add: cfg_def cs_def m_def len del: length_upto)
  have "length [1..n] \<le> nat m * nat c"
    using hi m1 c assms by (simp add: nat_mult_distrib [symmetric] nat_le_iff)
  then have cover: "concat cs = [1..n]"
    by (simp add: cs_def concat_windows del: length_upto)
  have count: "int (length cs) = \<lceil>real_of_int n / real_of_int (CHUNK_SIZE cfg)\<rceil>"
    using round_up_ceiling [OF c, of n] m1 by (simp add: cs_def cfg_def m_def)
  have full: "int (length (cs ! k)) = CHUNK_SIZE cfg" if "Suc k < length cs" for k
  proof -
    from that have k: "int k + 1 \<le> m - 1" by (simp add: cs_def)
    then have "(int k + 1) * c \<le> (m - 1) * c" using c by (simp add: mult_right_mono)
    with lo have "(int k + 1) * c < n" by simp
    then have "int (k * nat c + nat c) < n" using c by (simp add: algebra_simps)
    then have "k * nat c + nat c \<le> nat n" by linarith
    then have "nat c \<le> length [1..n] - k * nat c" using assms by simp
    moreover have "cs ! k = take (nat c) (drop (k * nat c) [1..n])"
      using that by (simp add: cs_def)
    ultimately show ?thesis using c by (simp add: cfg_def min_def del: length_upto)
  qed
  have lastc: "last cs = take (nat c) (drop ((nat m - 1) * nat c) [1..n])"
    using m1 by (simp add: cs_def last_map last_upt)
  have "int ((nat m - 1) * nat c) < n"
    using lo m1 c by (simp add: nat_diff_distrib nat_mult_distrib [symmetric])
  then have "(nat m - 1) * nat c < nat n" by linarith
  then have "1 \<le> length [1..n] - (nat m - 1) * nat c" using assms by simp
  moreover have "1 \<le> nat c" using c by simp
  ultimately have nonempty: "1 \<le> length (last cs)"
    by (simp add: lastc del: length_upto)
  have short: "int (length (last cs)) \<le> CHUNK_SIZE cfg"
    using c by (simp add: lastc cfg_def del: length_upto)
  have some: "1 \<le> length cs" and atmost: "int (length cs) \<le> w"
    using m1 mw by (simp_all add: cs_def)
  have fifty: "seq (ScraperConfig 50 10) page_chunks =
             Inr [[1, 2, 3, 4, 5], [6, 7, 8, 9, 10], [11, 12, 13, 14, 15], [16, 17, 18, 19, 20],
                  [21, 22, 23, 24, 25], [26, 27, 28, 29, 30], [31, 32, 33, 34, 35],
                  [36, 37, 38, 39, 40], [41, 42, 43, 44, 45], [46, 47, 48, 49, 50]]"
    by code_simp
  from cfg size chunks cover count some atmost full nonempty short
  have "\<exists>cfg cs. ScraperConfig n w = Inr cfg
           \<and> CHUNK_SIZE cfg = \<lceil>real_of_int n / real_of_int w\<rceil>
           \<and> page_chunks cfg = Inr cs
           \<and> concat cs = [1..n]
           \<and> int (length cs) = \<lceil>real_of_int n / real_of_int (CHUNK_SIZE cfg)\<rceil>
           \<and> 1 \<le> length cs \<and> int (length cs) \<le> w
           \<and> (\<forall>k. Suc k < length cs \<longrightarrow> int (length (cs ! k)) = CHUNK_SIZE cfg)
           \<and> 1 \<le> length (last cs) \<and> int (length (last cs)) \<le> CHUNK_SIZE cfg"
    by blast
  with fifty show ?thesis by simp
qed

theorem page_chunks_partition_witness:
  "(1::int) \<le> 5 \<and> (1::int) \<le> 4 \<and>
   (\<exists>cfg cs. ScraperConfig 5 4 = Inr cfg \<and> page_chunks cfg = Inr cs
      \<and> concat cs = [1..5] \<and> int (length cs) \<le> 4)"
  using page_chunks_partition [of 5 4] by auto

text \<open>
  C4 as stated fails: 5 pages and 4 workers give chunks of 2 pages, hence 3 chunks and not
  \<open>MAX_WORKERS = 4\<close>.
\<close>

theorem page_chunks_count_counterexample:
  "seq (ScraperConfig 5 4)
     (\<lambda>cfg. seq (page_chunks cfg) (\<lambda>cs. Inr (cs, int (length cs) = MAX_WORKERS cfg)))
   = Inr ([[1, 2], [3, 4], [5]], False)"
  by code_simp

section \<open>Properties of the table cleaner and the field normalisers\<close>

lemma required_all_iff:
  "list_all (\<lambda>col. col \<in> set cols) required_columns \<longleftrightarrow> (\<forall>col \<in> set required_columns. col \<in> set cols)"
  by (simp add: list_all_iff)

text \<open>
  C10. A table that is empty (no rows or no columns) or that lacks one of the seven required
  columns is answered with an empty table whose columns are exactly Title, Price, Rating,
  Colors, Size, Gender, timestamp; no exception leaves \<open>transform_dataframe\<close>.
\<close>

theorem transform_dataframe_unusable_input:
  assumes "df_empty df \<or> (\<exists>col \<in> set required_columns. col \<notin> set (columns df))"
  shows "transform_dataframe U config df =
           Inr \<lparr>columns = map lit [''Title'', ''Price'', ''Rating'', ''Colors'', ''Size'',
                                    ''Gender'', ''timestamp''],
                rows = []\<rparr>"
  using assms by (auto simp: transform_dataframe_def list_all_iff DataFrame_def required_columns_def)

lemma split_from_nonempty: "split_from field s sep \<noteq> []"
  by (induction field s sep rule: split_from.induct) auto

lemma py_float_raises: "py_float U s = Inl e \<Longrightarrow> e = ValueError"
  by (auto simp: py_float_def float_of_ascii_def Let_def split: if_splits prod.splits option.splits)

lemma py_int_raises: "py_int U s = Inl e \<Longrightarrow> e = ValueError"
  by (auto simp: py_int_def Let_def split: if_splits prod.splits)

lemma str_method_raises: "str_method c = Inl e \<Longrightarrow> e = AttributeError"
  by (auto simp: str_method_def split: cell.splits)

lemma index0_raises: "index0 xs = Inl e \<Longrightarrow> e = IndexError \<and> xs = []"
  by (auto simp: index0_def split: list.splits)

lemma try_except_returns:
  assumes "\<And>e. body = Inl e \<Longrightarrow> e \<in> set caught"
  shows "\<exists>v. try_except caught body = Inr v"
  using assms by (cases body) (auto simp: try_except_def)

lemma transform_price_returns: "\<exists>v. transform_price U config c = Inr v"
  unfolding transform_price_def
  by (rule try_except_returns)
     (auto simp: seq_def split: if_splits sum.splits dest: py_float_raises str_method_raises)

lemma transform_rating_returns: "\<exists>v. transform_rating U config c = Inr v"
  unfolding transform_rating_def
  by (rule try_except_returns)
     (auto simp: seq_def str_split_def split_from_nonempty split: if_splits sum.splits
           dest: py_float_raises str_method_raises index0_raises)

lemma transform_colors_returns: "\<exists>v. transform_colors U config c = Inr v"
  unfolding transform_colors_def
  by (rule try_except_returns)
     (auto simp: seq_def split: if_splits sum.splits
           dest: py_int_raises str_method_raises index0_raises)

lemma transform_size_returns: "\<exists>v. transform_size U config c = Inr v"
  unfolding transform_size_def
  by (rule try_except_returns)
     (auto simp: seq_def Let_def split: if_splits sum.splits dest: str_method_raises)

lemma transform_gender_returns: "\<exists>v. transform_gender U config c = Inr v"
  unfolding transform_gender_def
  by (rule try_except_returns)
     (auto simp: seq_def Let_def split: if_splits sum.splits dest: str_method_raises)

lemma strftime_raises: "strftime d = Inl e \<Longrightarrow> e = NotImplementedError \<and> (year d < 1 \<or> 9999 < year d)"
  by (auto simp: strftime_def split: if_splits)

lemma transform_timestamp_returns:
  assumes "\<And>e. to_datetime U c = Inl e \<Longrightarrow> e \<in> {ValueError, AttributeError}"
    and "\<And>d. to_datetime U c = Inr (Some d) \<Longrightarrow> 1 \<le> year d \<and> year d \<le> 9999"
  shows "\<exists>v. transform_timestamp U config c = Inr v"
proof (cases "isna c")
  case True
  then show ?thesis by (simp add: transform_timestamp_def try_except_def)
next
  case False
  show ?thesis
  proof (cases "to_datetime U c")
    case (Inl e)
    with assms(1) False show ?thesis
      by (auto simp: transform_timestamp_def try_except_def seq_def)
  next
    case (Inr dt)
    show ?thesis
    proof (cases dt)
      case None
      with Inr False show ?thesis
        by (simp add: transform_timestamp_def try_except_def seq_def)
    next
      case (Some d)
      with Inr assms(2) have "1 \<le> year d \<and> year d \<le> 9999" by blast
      then obtain t where "strftime d = Inr t" by (auto simp: strftime_def)
      with Inr Some False show ?thesis
        by (simp add: transform_timestamp_def try_except_def seq_def)
    qed
  qed
qed

lemma transform_timestamp_raises:
  "transform_timestamp U config c = Inl e \<longleftrightarrow>
     \<not> isna c
     \<and> (to_datetime U c = Inl e \<and> e \<noteq> ValueError \<and> e \<noteq> AttributeError
        \<or> e = NotImplementedError
          \<and> (\<exists>d. to_datetime U c = Inr (Some d) \<and> (year d < 1 \<or> 9999 < year d)))"
  by (auto simp: transform_timestamp_def try_except_def seq_def strftime_def
           split: if_splits sum.splits option.splits)

lemmas str_eval = lit_def str_strip_def isspace_def c_strip_def c_isspace_def is_ascii_digit_def
  split_sign_def lower_def digits_value_def STAR_def str_split_def index0_def
  str_split_whitespace_def str_isdigit_def

lemmas num_eval = py_float_def float_of_ascii_def parse_decimal_def parse_exponent_def
  scale10_def fmul_def fsign_def py_int_def round_to_double_def round_to_multiple_def
  signed_or_inf_def binade_def round_half_even_def power_int_minus

lemmas exn_eval = seq_def try_except_def isna_def str_method_def marker_in_str_def

lemmas field_eval = transform_price_def transform_rating_def transform_colors_def
  transform_size_def transform_gender_def transform_timestamp_def TransformConfig_def
  strftime_def digit2_def decimal.simps

lemmas df_eval = transform_dataframe_def df_empty_def required_columns_def apply_column_def
  series_apply_def set_column_def item_def column_index_def box_def dropna_def
  drop_unknown_product_def drop_duplicates_def astype_def to_int32_def DataFrame_def
  column_values_def is_int64_def

lemmas example_eval = example_extern_def iso_datetime_def example_row_def example_table_def
  is_uint64_def

lemma field_normalizers_return:
  "(\<exists>v. transform_price U config c = Inr v)
   \<and> (\<exists>v. transform_rating U config c = Inr v)
   \<and> (\<exists>v. transform_colors U config c = Inr v)
   \<and> (\<exists>v. transform_size U config c = Inr v)
   \<and> (\<exists>v. transform_gender U config c = Inr v)"
  using transform_price_returns transform_rating_returns transform_colors_returns
    transform_size_returns transform_gender_returns
  by blast

lemma iso_datetime_raises: "iso_datetime c = Inl e \<Longrightarrow> e = ValueError"
  by (auto simp: iso_datetime_def split: cell.splits if_splits)

text \<open>
  C8. \<open>transform_price\<close>, \<open>transform_rating\<close>, \<open>transform_colors\<close>, \<open>transform_size\<close> and
  \<open>transform_gender\<close> return a typed value or None on every cell value (None, a float
  including NaN, an integer, a text): their bodies raise only ValueError, AttributeError
  and IndexError, and each \<open>except\<close> clause names the ones its body can raise
  (\<open>field_normalizers_return\<close>). \<open>transform_timestamp\<close> is not total. Its \<open>except\<close> clause
  names ValueError and AttributeError, and \<open>strftime\<close> raises NotImplementedError for a
  timestamp whose year is outside 1..9999: on the text \<open>0000-01-01 00:00:00\<close>, which the
  parser reads as a timestamp of the year 0, NotImplementedError leaves
  \<open>transform_timestamp\<close>. An exception of \<open>to_datetime\<close> of another class than the two
  named leaves it as well (\<open>transform_timestamp_raises\<close>).
\<close>

theorem transform_timestamp_not_total:
  assumes "\<not> isna c"
    and "to_datetime U c = Inr (Some d)"
    and "year d < 1 \<or> 9999 < year d"
  shows "transform_timestamp U config c = Inl NotImplementedError"
  using assms by (auto simp: transform_timestamp_def try_except_def seq_def strftime_def)

theorem transform_timestamp_not_total_witness:
  "\<not> isna (PyStr (lit ''0000-01-01 00:00:00''))
   \<and> to_datetime example_extern (PyStr (lit ''0000-01-01 00:00:00''))
     = Inr (Some \<lparr>year = 0, month = 1, day = 1, hour = 0, minute = 0, second = 0\<rparr>)
   \<and> transform_timestamp example_extern TransformConfig (PyStr (lit ''0000-01-01 00:00:00''))
     = Inl NotImplementedError
   \<and> transform_timestamp example_extern TransformConfig (PyStr (lit ''0999-12-31 23:59:59''))
     = Inr (Some (lit ''999-12-31 23:59:59''))
   \<and> transform_timestamp example_extern TransformConfig (PyStr (lit ''not a date'')) = Inr None"
proof -
  have na: "\<not> isna (PyStr (lit ''0000-01-01 00:00:00''))" by (simp add: isna_def)
  have parsed: "to_datetime example_extern (PyStr (lit ''0000-01-01 00:00:00''))
     = Inr (Some \<lparr>year = 0, month = 1, day = 1, hour = 0, minute = 0, second = 0\<rparr>)"
    by (simp add: example_eval str_eval)
  have "transform_timestamp example_extern TransformConfig (PyStr (lit ''0000-01-01 00:00:00''))
     = Inl NotImplementedError"
    by (rule transform_timestamp_not_total [OF na parsed]) simp
  moreover have "transform_timestamp example_extern TransformConfig
       (PyStr (lit ''0999-12-31 23:59:59'')) = Inr (Some (lit ''999-12-31 23:59:59''))"
    by (simp add: field_eval str_eval exn_eval example_eval)
  moreover have "transform_timestamp example_extern TransformConfig (PyStr (lit ''not a date''))
       = Inr None"
    by (simp add: field_eval str_eval exn_eval example_eval)
  ultimately show ?thesis using na parsed by blast
qed

theorem transform_dataframe_unusable_input_witness:
  "(df_empty (example_table []) \<or> (\<exists>col \<in> set required_columns. col \<notin> set (columns (example_table []))))
   \<and> transform_dataframe example_extern TransformConfig (example_table []) =
       Inr \<lparr>columns = map lit [''Title'', ''Price'', ''Rating'', ''Colors'', ''Size'',
                                ''Gender'', ''timestamp''],
            rows = []\<rparr>
   \<and> \<not> df_empty \<lparr>columns = [lit ''Title'', lit ''Price''], rows = [[PyStr (lit ''Shirt''), PyStr (lit ''$5'')]]\<rparr>
   \<and> transform_dataframe example_extern TransformConfig
         \<lparr>columns = [lit ''Title'', lit ''Price''], rows = [[PyStr (lit ''Shirt''), PyStr (lit ''$5'')]]\<rparr> =
       Inr \<lparr>columns = map lit [''Title'', ''Price'', ''Rating'', ''Colors'', ''Size'',
                                ''Gender'', ''timestamp''],
            rows = []\<rparr>"
proof -
  have a: "df_empty (example_table []) \<or> (\<exists>col \<in> set required_columns. col \<notin> set (columns (example_table [])))"
    by (simp add: df_empty_def example_table_def)
  have b: "df_empty \<lparr>columns = [lit ''Title'', lit ''Price''], rows = [[PyStr (lit ''Shirt''), PyStr (lit ''$5'')]]\<rparr>
       \<or> (\<exists>col \<in> set required_columns. col \<notin> set (columns \<lparr>columns = [lit ''Title'', lit ''Price''], rows = [[PyStr (lit ''Shirt''), PyStr (lit ''$5'')]]\<rparr>))"
    by (simp add: required_columns_def lit_def)
  have c: "\<not> df_empty \<lparr>columns = [lit ''Title'', lit ''Price''], rows = [[PyStr (lit ''Shirt''), PyStr (lit ''$5'')]]\<rparr>"
    by (simp add: df_empty_def)
  from a c transform_dataframe_unusable_input [OF a] transform_dataframe_unusable_input [OF b]
  show ?thesis by blast
qed

lemma split_from_single:
  "split_from field s [c] \<noteq> [] \<and> hd (split_from field s [c]) = rev field @ takeWhile (\<lambda>x. x \<noteq> c) s"
  by (induction field s "[c]" rule: split_from.induct) auto

lemma index0_split_single:
  "seq (str_split s [c]) index0 = Inr (takeWhile (\<lambda>x. x \<noteq> c) s)"
  using split_from_single [of "[]" s c]
  by (cases "split_from [] s [c]") (auto simp: str_split_def seq_def index0_def)

text \<open>
  C7. \<open>transform_rating\<close> returns None when the rating is absent, and when it is a text that
  contains \<open>Invalid\<close> or \<open>Not Rated\<close>; on any other text it returns the float parsed from the
  trimmed part before the first \<open>/\<close>, or None when that part does not parse. (A number, which
  has no \<open>split\<close>, gives None as well.) In particular \<open>4.5/5\<close> followed by a star gives 4.5
  and \<open>Invalid Rating\<close> gives None.
\<close>

theorem transform_rating_spec:
  "transform_rating U config rating =
     Inr (case rating of
            PyStr s \<Rightarrow>
              if str_contains (lit ''Invalid'') s \<or> str_contains (lit ''Not Rated'') s then None
              else (case py_float U (str_strip (takeWhile (\<lambda>c. c \<noteq> 47) s)) of
                      Inl e \<Rightarrow> None
                    | Inr x \<Rightarrow> Some x)
          | _ \<Rightarrow> None)
   \<and> transform_rating U config (PyStr (lit ''4.5/5 '' @ STAR)) = Inr (Some (Fin 4.5))
   \<and> transform_rating U config (PyStr (lit ''Invalid Rating'')) = Inr None"
proof -
  have sl: "lit ''/'' = [47]" by (simp add: lit_def)
  have gen: "transform_rating U config rating =
     Inr (case rating of
            PyStr s \<Rightarrow>
              if str_contains (lit ''Invalid'') s \<or> str_contains (lit ''Not Rated'') s then None
              else (case py_float U (str_strip (takeWhile (\<lambda>c. c \<noteq> 47) s)) of
                      Inl e \<Rightarrow> None
                    | Inr x \<Rightarrow> Some x)
          | _ \<Rightarrow> None)" for rating
  proof (cases rating)
    case (PyStr s)
    have "seq (str_split s [47]) (\<lambda>parts. seq (index0 parts) f) = f (takeWhile (\<lambda>c. c \<noteq> 47) s)" for f :: "pystr \<Rightarrow> py_exn + pyfloat option"
      using index0_split_single [of s 47]
      by (auto simp: seq_def split: sum.splits)
    then show ?thesis
      using PyStr
      by (auto simp: transform_rating_def sl isna_def marker_in_str_def str_method_def
                     try_except_def seq_def split: sum.splits dest: py_float_raises)
  qed (auto simp: transform_rating_def isna_def marker_in_str_def str_method_def try_except_def seq_def)
  have a: "transform_rating U config (PyStr (lit ''4.5/5 '' @ STAR)) = Inr (Some (Fin 4.5))"
    by (simp add: field_eval str_eval num_eval exn_eval)
  have b: "transform_rating U config (PyStr (lit ''Invalid Rating'')) = Inr None"
    by (simp add: field_eval str_eval num_eval exn_eval)
  from gen a b show ?thesis by blast
qed

theorem transform_rating_spec_witness:
  "transform_rating example_extern TransformConfig (PyStr (lit ''3.9 / 5''))
     = Inr (Some (Fin (8782019273372467 / 2 ^ 51)))
   \<and> transform_rating example_extern TransformConfig (PyStr (lit ''Not Rated'')) = Inr None
   \<and> transform_rating example_extern TransformConfig PyNone = Inr None"
proof -
  note r = transform_rating_spec [THEN conjunct1]
  have "transform_rating example_extern TransformConfig (PyStr (lit ''3.9 / 5''))
          = Inr (Some (Fin (8782019273372467 / 2 ^ 51)))"
    by (subst r) (simp add: str_eval num_eval)
  moreover have "transform_rating example_extern TransformConfig (PyStr (lit ''Not Rated'')) = Inr None"
    by (subst r) (simp add: str_eval)
  moreover have "transform_rating example_extern TransformConfig PyNone = Inr None"
    by (subst r) simp
  ultimately show ?thesis by blast
qed

subsection \<open>Parsing a plain decimal\<close>

lemma str_replace_single: "str_replace s [c] [] = filter (\<lambda>x. x \<noteq> c) s"
  by (induction s "[c]" "[]::pystr" rule: str_replace.induct) auto

lemma strip_fixed:
  assumes "s \<noteq> []" "\<not> P (hd s)" "\<not> P (last s)"
  shows "rev (dropWhile P (rev (dropWhile P s))) = s"
proof -
  from assms have a: "dropWhile P s = s" by (cases s) auto
  from assms have "dropWhile P (rev s) = rev s"
    by (cases "rev s") (auto simp: last_rev hd_rev)
  with a show ?thesis by simp
qed

lemma digit_not_space: "is_ascii_digit c \<Longrightarrow> \<not> isspace c \<and> \<not> c_isspace c \<and> c < 128 \<and> c \<noteq> 95 \<and> c \<noteq> 46"
  by (auto simp: is_ascii_digit_def isspace_def c_isspace_def)

lemma to_ascii_ascii: "\<forall>c \<in> set s. c < 127 \<Longrightarrow> to_ascii U s = s"
  by (induction s) auto

lemma underscores_ok_none: "95 \<notin> set s \<Longrightarrow> p \<noteq> 95 \<Longrightarrow> underscores_ok p s"
  by (induction s arbitrary: p) auto

lemma digits_value_append:
  "digits_value (a @ b) = digits_value a * 10 ^ length b + digits_value b"
proof -
  define f :: "nat \<Rightarrow> nat \<Rightarrow> nat" where "f = (\<lambda>a c. 10 * a + (c - 48))"
  have key: "foldl f n b = n * 10 ^ length b + foldl f 0 b" for n b
  proof (induction b arbitrary: n)
    case Nil
    then show ?case by simp
  next
    case (Cons x b)
    have "foldl f n (x # b) = foldl f (f n x) b" by simp
    also have "\<dots> = f n x * 10 ^ length b + foldl f 0 b" by (rule Cons.IH)
    also have "f n x = 10 * n + f 0 x" by (simp add: f_def)
    also have "(10 * n + f 0 x) * 10 ^ length b + foldl f 0 b
               = n * 10 ^ length (x # b) + (f 0 x * 10 ^ length b + foldl f 0 b)"
      by (simp add: algebra_simps)
    also have "f 0 x * 10 ^ length b + foldl f 0 b = foldl f (f 0 x) b"
      by (rule Cons.IH [symmetric])
    also have "\<dots> = foldl f 0 (x # b)" by simp
    finally show ?case .
  qed
  have "foldl f 0 (a @ b) = foldl f (foldl f 0 a) b" by simp
  also have "\<dots> = foldl f 0 a * 10 ^ length b + foldl f 0 b" by (rule key)
  finally show ?thesis by (simp only: digits_value_def f_def)
qed

lemma takeWhile_digits:
  assumes "list_all is_ascii_digit w" "r = [] \<or> \<not> is_ascii_digit (hd r)"
  shows "takeWhile is_ascii_digit (w @ r) = w" "dropWhile is_ascii_digit (w @ r) = r"
  using assms by (induction w) (auto simp: list_all_iff takeWhile_eq_Nil_iff dropWhile_eq_self_iff)

lemma py_float_plain:
  assumes w: "w \<noteq> []" "list_all is_ascii_digit w"
    and f: "list_all is_ascii_digit f"
    and r: "r = (if f = [] then [] else 46 # f)"
  shows "py_float U (w @ r)
         = Inr (round_to_double (real (digits_value w) + real (digits_value f) / 10 ^ length f))"
proof -
  let ?s = "w @ r"
  obtain d w' where wd: "w = d # w'" using w by (cases w) auto
  have d: "is_ascii_digit d" using w wd by simp
  have digits: "\<forall>c \<in> set ?s. is_ascii_digit c \<or> c = 46"
    using w f r by (auto simp: list_all_iff)
  have ne: "?s \<noteq> []" using w by simp
  have hd: "hd ?s = d" using wd by simp
  have last: "is_ascii_digit (last ?s)"
    using w f r by (auto simp: list_all_iff last_append)
  have small: "\<forall>c \<in> set ?s. c < 127"
  proof
    fix c assume "c \<in> set ?s"
    with digits have "is_ascii_digit c \<or> c = 46" by blast
    then show "c < 127" by (auto simp: is_ascii_digit_def)
  qed
  have no95: "95 \<notin> set ?s"
  proof
    assume "95 \<in> set ?s"
    with digits have "is_ascii_digit 95 \<or> (95::nat) = 46" by blast
    then show False by (simp add: is_ascii_digit_def)
  qed
  have ascii: "to_ascii U ?s = ?s"
    using small by (rule to_ascii_ascii)
  have strip: "c_strip ?s = ?s"
    unfolding c_strip_def using ne d last hd digit_not_space
    by (intro strip_fixed) auto
  have under: "underscores_ok 0 ?s"
    using no95 by (intro underscores_ok_none) simp_all
  have nounder: "filter (\<lambda>c. c \<noteq> 95) ?s = ?s"
    unfolding filter_id_conv using no95 by blast
  have sign: "split_sign ?s = (False, ?s)"
    using d by (simp add: split_sign_def wd is_ascii_digit_def)
  have low: "lower d = d" using d by (simp add: lower_def is_ascii_digit_def)
  have notword: "map lower ?s \<noteq> lit ''inf''" "map lower ?s \<noteq> lit ''infinity''"
    "map lower ?s \<noteq> lit ''nan''"
    using d by (auto simp: wd low lit_def is_ascii_digit_def)
  have rhd: "r = [] \<or> \<not> is_ascii_digit (hd r)"
    using r by (simp add: is_ascii_digit_def)
  have tw: "takeWhile is_ascii_digit ?s = w" and dw: "dropWhile is_ascii_digit ?s = r"
    using takeWhile_digits [OF w(2) rhd] by simp_all
  have ftw: "takeWhile is_ascii_digit f = f" and fdw: "dropWhile is_ascii_digit f = []"
    using f by (simp_all add: list_all_iff)
  have dec: "parse_decimal ?s = Some (scale10 (digits_value (w @ f)) (- int (length f)))"
    unfolding parse_decimal_def tw dw using w(1) r
    by (simp add: ftw fdw parse_exponent_def)
  have val: "scale10 (digits_value (w @ f)) (- int (length f))
             = real (digits_value w) + real (digits_value f) / 10 ^ length f"
  proof (cases "f = []")
    case True
    moreover have "digits_value [] = 0" by (simp add: digits_value_def)
    ultimately show ?thesis by (simp add: scale10_def)
  next
    case False
    then show ?thesis by (simp add: scale10_def digits_value_append add_divide_distrib)
  qed
  have "py_float U ?s = float_of_ascii ?s"
    unfolding py_float_def Let_def ascii strip nounder using under by (simp only: if_True)
  also have "\<dots> = Inr (round_to_double (real (digits_value w) + real (digits_value f) / 10 ^ length f))"
    unfolding float_of_ascii_def sign using notword
    by (simp add: dec val del: map_append)
  finally show ?thesis .
qed

lemma dollar_amount_cleaned:
  assumes "dollar_amount s = Some v"
  shows "\<exists>w f. w \<noteq> [] \<and> list_all is_ascii_digit w \<and> list_all is_ascii_digit f
           \<and> filter (\<lambda>x. x \<noteq> 44) (filter (\<lambda>x. x \<noteq> 36) s) = w @ (if f = [] then [] else 46 # f)
           \<and> v = real (digits_value w) + real (digits_value f) / 10 ^ length f"
proof -
  define t where "t = (case s of [] \<Rightarrow> [] | c # r \<Rightarrow> if c = 36 then r else s)"
  define whole where "whole = takeWhile (\<lambda>c. c \<noteq> 46) t"
  define rest where "rest = dropWhile (\<lambda>c. c \<noteq> 46) t"
  define frac where "frac = tl rest"
  define w where "w = filter is_ascii_digit whole"
  from assms have ok: "list_all (\<lambda>c. is_ascii_digit c \<or> c = 44) whole"
      "case whole of [] \<Rightarrow> False | c # _ \<Rightarrow> is_ascii_digit c"
      "list_all is_ascii_digit frac" "rest = [] \<or> frac \<noteq> []"
    and v: "v = real (digits_value w) + real (digits_value frac) / 10 ^ length frac"
    unfolding dollar_amount_def t_def [symmetric] Let_def whole_def [symmetric]
      rest_def [symmetric] frac_def [symmetric] w_def [symmetric]
    by (simp_all split: if_splits)
  have t: "t = whole @ rest" by (simp add: whole_def rest_def)
  have rest: "rest = (if frac = [] then [] else 46 # frac)"
  proof (cases rest)
    case Nil
    then show ?thesis by (simp add: frac_def)
  next
    case (Cons a r)
    then have "a = 46" using hd_dropWhile [of "\<lambda>c. c \<noteq> 46" t] by (simp add: rest_def)
    with Cons ok(4) show ?thesis by (simp add: frac_def)
  qed
  have wne: "w \<noteq> []" using ok(2) by (cases whole) (auto simp: w_def)
  have wd: "list_all is_ascii_digit w" by (simp add: w_def list_all_iff)
  have nodollar_whole: "filter (\<lambda>x. x \<noteq> 36) whole = whole"
    unfolding filter_id_conv using ok(1) by (auto simp: list_all_iff is_ascii_digit_def)
  have nodollar_frac: "filter (\<lambda>x. x \<noteq> 36) frac = frac" "filter (\<lambda>x. x \<noteq> 44) frac = frac"
    unfolding filter_id_conv using ok(3) by (auto simp: list_all_iff is_ascii_digit_def)
  have nocomma_whole: "filter (\<lambda>x. x \<noteq> 44) whole = w"
    unfolding w_def using ok(1)
    by (intro filter_cong) (auto simp: list_all_iff is_ascii_digit_def)
  have "filter (\<lambda>x. x \<noteq> 36) t = t"
    by (simp add: t rest nodollar_whole nodollar_frac)
  moreover have "filter (\<lambda>x. x \<noteq> 36) s = filter (\<lambda>x. x \<noteq> 36) t"
    by (cases s) (auto simp: t_def)
  ultimately have "filter (\<lambda>x. x \<noteq> 44) (filter (\<lambda>x. x \<noteq> 36) s) = filter (\<lambda>x. x \<noteq> 44) t"
    by simp
  also have "\<dots> = w @ (if frac = [] then [] else 46 # frac)"
    by (simp add: t rest nocomma_whole nodollar_frac)
  finally show ?thesis using wne wd ok(3) v by blast
qed

lemma transform_price_text:
  "transform_price U config (PyStr s) =
     Inr (case py_float U (str_strip (filter (\<lambda>x. x \<noteq> 44) (filter (\<lambda>x. x \<noteq> 36) s))) of
            Inl e \<Rightarrow> None
          | Inr x \<Rightarrow> Some (fmul x (EXCHANGE_RATE config)))"
proof -
  have l: "lit ''$'' = [36]" "lit '','' = [44]" by (simp_all add: lit_def)
  show ?thesis
    by (auto simp: transform_price_def l str_replace_single isna_def str_method_def seq_def
          try_except_def split: sum.splits dest: py_float_raises)
qed

lemma transform_price_dollar:
  assumes "dollar_amount s = Some v"
  shows "transform_price U TransformConfig (PyStr s)
         = Inr (Some (fmul (round_to_double v) (Fin 16000)))"
proof -
  from dollar_amount_cleaned [OF assms] obtain w f where
    w: "w \<noteq> []" "list_all is_ascii_digit w" and f: "list_all is_ascii_digit f"
    and c: "filter (\<lambda>x. x \<noteq> 44) (filter (\<lambda>x. x \<noteq> 36) s) = w @ (if f = [] then [] else 46 # f)"
    and v: "v = real (digits_value w) + real (digits_value f) / 10 ^ length f"
    by blast
  let ?c = "w @ (if f = [] then [] else 46 # f)"
  have "is_ascii_digit (hd ?c)" using w by (cases w) auto
  moreover have "is_ascii_digit (last ?c)" using w f by (auto simp: list_all_iff)
  ultimately have strip: "str_strip ?c = ?c"
    unfolding str_strip_def using w(1) digit_not_space by (intro strip_fixed) auto
  have parsed: "py_float U ?c = Inr (round_to_double v)"
    unfolding v using w f by (intro py_float_plain) simp_all
  show ?thesis
    unfolding transform_price_text c strip parsed
    by (simp add: TransformConfig_def)
qed

text \<open>
  C6. \<open>transform_price\<close> removes every \<open>$\<close> and every comma from a price text, trims it,
  parses it as a float and returns the product with the exchange rate; a text that \<open>float\<close>
  rejects, an absent value and a number give None. For every text of the form of a dollar
  amount (an optional leading \<open>$\<close>, digits with optional commas between them, an optional
  decimal point followed by digits) of value \<open>v\<close>, the parsed float is the double nearest
  to \<open>v\<close> and the result is its float product with 16000.0; in particular \<open>$12.50\<close> gives
  200000.0. The parse and the product are those of Python's floats, so each rounds to a
  double: \<open>$2.01\<close> gives 32159.999999999996, the double below 32160.
\<close>

theorem transform_price_spec:
  "transform_price U config price =
     Inr (case price of
            PyStr s \<Rightarrow>
              (case py_float U (str_strip (filter (\<lambda>c. c \<noteq> 44) (filter (\<lambda>c. c \<noteq> 36) s))) of
                 Inl e \<Rightarrow> None
               | Inr x \<Rightarrow> Some (fmul x (EXCHANGE_RATE config)))
          | _ \<Rightarrow> None)
   \<and> (dollar_amount s = Some v \<longrightarrow>
        transform_price U TransformConfig (PyStr s)
          = Inr (Some (fmul (round_to_double v) (Fin 16000))))
   \<and> transform_price U TransformConfig (PyStr (lit ''$12.50'')) = Inr (Some (Fin 200000))"
proof -
  have "transform_price U config price = Inr None" if "\<And>s. price \<noteq> PyStr s"
    using that
    by (cases price) (auto simp: transform_price_def isna_def str_method_def seq_def try_except_def)
  then have a: "transform_price U config price =
     Inr (case price of
            PyStr s \<Rightarrow>
              (case py_float U (str_strip (filter (\<lambda>c. c \<noteq> 44) (filter (\<lambda>c. c \<noteq> 36) s))) of
                 Inl e \<Rightarrow> None
               | Inr x \<Rightarrow> Some (fmul x (EXCHANGE_RATE config)))
          | _ \<Rightarrow> None)"
    by (cases price) (simp_all add: transform_price_text)
  have b: "transform_price U TransformConfig (PyStr (lit ''$12.50'')) = Inr (Some (Fin 200000))"
    by (simp add: field_eval str_eval num_eval exn_eval)
  from a b transform_price_dollar show ?thesis by blast
qed

theorem transform_price_spec_witness:
  "dollar_amount (lit ''$1,299.99'') = Some 1299.99
   \<and> transform_price example_extern TransformConfig (PyStr (lit ''$1,299.99''))
       = Inr (Some (Fin 20799840))
   \<and> dollar_amount (lit ''$2.01'') = Some 2.01
   \<and> transform_price example_extern TransformConfig (PyStr (lit ''$2.01''))
       = Inr (Some (Fin (32160 - 1 / 2 ^ 38)))
   \<and> transform_price example_extern TransformConfig (PyStr (lit ''Price Unavailable'')) = Inr None
   \<and> transform_price example_extern TransformConfig (PyFloat (Fin 5)) = Inr None"
proof -
  have d: "dollar_amount (lit ''$1,299.99'') = Some 1299.99"
    by (simp add: dollar_amount_def str_eval)
  have e: "dollar_amount (lit ''$2.01'') = Some 2.01"
    by (simp add: dollar_amount_def str_eval)
  have rd: "fmul (round_to_double 1299.99) (Fin 16000) = Fin 20799840"
    by (simp add: num_eval)
  have re: "fmul (round_to_double 2.01) (Fin 16000) = Fin (32160 - 1 / 2 ^ 38)"
    by (simp add: num_eval)
  note spec = transform_price_spec [of example_extern TransformConfig]
  from spec [of PyNone "lit ''$1,299.99''" "1299.99"] d rd
  have "transform_price example_extern TransformConfig (PyStr (lit ''$1,299.99''))
       = Inr (Some (Fin 20799840))" by simp
  moreover from spec [of PyNone "lit ''$2.01''" "2.01"] e re
  have "transform_price example_extern TransformConfig (PyStr (lit ''$2.01''))
       = Inr (Some (Fin (32160 - 1 / 2 ^ 38)))" by simp
  moreover have "transform_price example_extern TransformConfig (PyStr (lit ''Price Unavailable'')) = Inr None"
    by (subst spec [THEN conjunct1]) (simp add: str_eval num_eval)
  moreover have "transform_price example_extern TransformConfig (PyFloat (Fin 5)) = Inr None"
    by (subst spec [THEN conjunct1]) simp
  ultimately show ?thesis using d e by blast
qed

section \<open>Properties of the card parser\<close>

lemma classify_paragraph_trigger:
  "classify_paragraph info p =
     Inr (case trigger_of (str_strip p) of
            None \<Rightarrow> info
          | Some RatingField \<Rightarrow> info\<lparr>Rating := Some (rating_text (str_strip p))\<rparr>
          | Some ColorsField \<Rightarrow> info\<lparr>Colors := Some (str_strip p)\<rparr>
          | Some SizeField \<Rightarrow> info\<lparr>Size := Some (str_strip p)\<rparr>
          | Some GenderField \<Rightarrow> info\<lparr>Gender := Some (str_strip p)\<rparr>)"
proof -
  have sl: "lit ''/'' = [47]" by (simp add: lit_def)
  have "seq (str_split s [47]) (\<lambda>parts. seq (index0 parts) f) = f (takeWhile (\<lambda>c. c \<noteq> 47) s)"
    for s and f :: "pystr \<Rightarrow> py_exn + additional_info"
    using index0_split_single [of s 47] by (auto simp: seq_def split: sum.splits)
  then show ?thesis
    by (simp add: classify_paragraph_def trigger_of_def rating_text_def sl Let_def)
qed

lemma last_with_Cons:
  "last_with f (p # ps) =
     (case last_with f ps of
        Some t \<Rightarrow> Some t
      | None \<Rightarrow> if trigger_of (str_strip p) = Some f then Some (str_strip p) else None)"
  by (auto simp: last_with_def split: list.splits)

lemma paragraph_loop_spec:
  "paragraph_loop info ps =
     Inr \<lparr>Rating = (case last_with RatingField ps of
                      None \<Rightarrow> Rating info | Some t \<Rightarrow> Some (rating_text t)),
          Colors = (case last_with ColorsField ps of None \<Rightarrow> Colors info | Some t \<Rightarrow> Some t),
          Size = (case last_with SizeField ps of None \<Rightarrow> Size info | Some t \<Rightarrow> Some t),
          Gender = (case last_with GenderField ps of None \<Rightarrow> Gender info | Some t \<Rightarrow> Some t)\<rparr>"
proof (induction ps arbitrary: info)
  case Nil
  show ?case by (simp add: last_with_def)
next
  case (Cons p ps)
  show ?case
    by (cases "trigger_of (str_strip p)"; cases "the (trigger_of (str_strip p))")
       (simp_all add: classify_paragraph_trigger seq_def Cons.IH last_with_Cons
          split: option.splits)
qed

text \<open>
  C3 (as the code has it). Each descriptor paragraph is trimmed and classified by the first
  trigger it contains, tried in the order \<open>Rating:\<close>, \<open>Colors\<close>, \<open>Size:\<close>, \<open>Gender:\<close>. The
  Colors, Size and Gender fields receive the trimmed text of the last paragraph of their
  class, verbatim. The Rating field does not: it receives that text with the star and
  \<open>Rating:\<close> removed, cut before the first \<open>/\<close> and trimmed again. Paragraphs with no
  trigger are ignored, and a field with no paragraph of its class stays None.
\<close>

theorem get_additional_info_spec:
  "get_additional_info p_tags =
     Inr \<lparr>Rating = map_option rating_text (last_with RatingField p_tags),
          Colors = last_with ColorsField p_tags,
          Size = last_with SizeField p_tags,
          Gender = last_with GenderField p_tags\<rparr>"
  by (simp add: get_additional_info_def paragraph_loop_spec split: option.splits)

theorem get_additional_info_spec_witness:
  "get_additional_info
     [lit '' Rating: '' @ STAR @ lit '' 3.9 / 5 '', lit ''3 Colors'', lit ''Sold out'',
      lit ''Size: M'', lit ''Gender: Women'', lit ''5 Colors (Size: L)'']
   = Inr \<lparr>Rating = Some (lit ''3.9''), Colors = Some (lit ''5 Colors (Size: L)''),
          Size = Some (lit ''Size: M''), Gender = Some (lit ''Gender: Women'')\<rparr>"
  by (subst get_additional_info_spec)
     (simp add: last_with_def trigger_of_def rating_text_def str_eval)

text \<open>
  C3 as stated fails for the rating: the paragraph \<open>Rating: * 4.8 / 5\<close> (with the star)
  stores \<open>4.8\<close>, which is not the paragraph's trimmed text.
\<close>

theorem get_additional_info_rating_counterexample:
  "get_additional_info [lit ''Rating: '' @ STAR @ lit '' 4.8 / 5'']
     = Inr \<lparr>Rating = Some (lit ''4.8''), Colors = None, Size = None, Gender = None\<rparr>
   \<and> str_strip (lit ''Rating: '' @ STAR @ lit '' 4.8 / 5'') \<noteq> lit ''4.8''"
  by (simp add: get_additional_info_def classify_paragraph_def str_eval seq_def)

section \<open>Properties of the harvest and the pipeline\<close>

lemma scrape_chunk_offline:
  assumes "\<forall>p. \<exists>e. fetch w p = Inl e"
  shows "scrape_chunk w pages = []"
proof -
  have "scrape_single_page w p = []" for p
  proof -
    from assms obtain e where "fetch w p = Inl e" by blast
    then show ?thesis by (simp add: scrape_single_page_def)
  qed
  then show ?thesis by (simp add: scrape_chunk_def)
qed

lemma scrape_offline:
  assumes "\<forall>p. \<exists>e. fetch w p = Inl e"
  shows "scrape w config = DataFrame []"
  by (auto simp: scrape_def seq_def scrape_chunk_offline [OF assms] split: sum.splits)

text \<open>
  C5. When every page fetch fails, each page contributes no product, whatever the
  configuration and the order in which the chunks complete, so \<open>scrape\<close> returns the empty
  table; \<open>run_etl_pipeline\<close> then returns False and has performed no effect at all: no
  raw file is written and none of the three load operations is invoked.
\<close>

theorem all_fetches_fail:
  assumes "\<forall>p. \<exists>e. fetch w p = Inl e"
  shows "scrape w config = DataFrame [] \<and> df_empty (scrape w config)
         \<and> run_etl_pipeline U w = (False, [])"
proof -
  have s: "scrape w c = DataFrame []" for c by (rule scrape_offline [OF assms])
  have e: "df_empty (DataFrame [])" by (simp add: df_empty_def DataFrame_def)
  have "run_etl_pipeline U w = (False, [])"
    by (simp add: run_etl_pipeline_def ScraperConfig_pos s e)
  with s e show ?thesis by simp
qed

theorem all_fetches_fail_witness:
  "fetch offline_world 7 = Inl RequestException
   \<and> scrape offline_world \<lparr>NUM_PAGES = 50, MAX_WORKERS = 10, CHUNK_SIZE = 5\<rparr>
       = \<lparr>columns = [], rows = []\<rparr>
   \<and> run_etl_pipeline example_extern offline_world = (False, [])"
proof -
  have h: "\<forall>p. \<exists>e. fetch offline_world p = Inl e" by (simp add: offline_world_def)
  from all_fetches_fail [OF h, of "\<lparr>NUM_PAGES = 50, MAX_WORKERS = 10, CHUNK_SIZE = 5\<rparr>" example_extern]
  show ?thesis by (simp add: DataFrame_def offline_world_def)
qed

section \<open>The table cleaner leaves its argument alone\<close>

lemma frames_new_object: "frames n (new_object d) (\<lambda>r. n \<le> r)"
  by (simp add: frames_def new_object_def)

lemma frames_deref: "frames n (deref r) (\<lambda>d. True)"
  by (simp add: frames_def deref_def)

lemma frames_raise_or_return: "frames n (raise_or_return v) (\<lambda>x. True)"
  by (simp add: frames_def raise_or_return_def split: sum.splits)

lemma frames_setitem: "n \<le> r \<Longrightarrow> frames n (setitem r col vals) (\<lambda>u. True)"
  by (simp add: frames_def setitem_def)

lemma framesD:
  assumes "frames n m Q" "n \<le> length h" "m h = (res, h')"
  shows "length h \<le> length h'" "take n h' = take n h" "\<And>x. res = Inr x \<Longrightarrow> Q x"
  using assms unfolding frames_def by (force split: sum.splits)+

lemma frames_and_then:
  assumes "frames n m Q" and "\<And>x. Q x \<Longrightarrow> frames n (f x) R"
  shows "frames n (and_then m f) R"
  unfolding frames_def
proof (intro allI impI)
  fix h :: heap
  assume n: "n \<le> length h"
  obtain res h1 where m: "m h = (res, h1)" by (cases "m h")
  note 1 = framesD(1,2) [OF assms(1) n m] and q = framesD(3) [OF assms(1) n m]
  show "case and_then m f h of
          (res, h') \<Rightarrow> length h \<le> length h' \<and> take n h' = take n h
                       \<and> (case res of Inl e \<Rightarrow> True | Inr x \<Rightarrow> R x)"
  proof (cases res)
    case (Inl e)
    with m 1 show ?thesis by (simp add: and_then_def)
  next
    case (Inr x)
    obtain res2 h2 where f: "f x h1 = (res2, h2)" by (cases "f x h1")
    from n 1 have n1: "n \<le> length h1" by simp
    note 2 = framesD [OF assms(2) [OF q [OF Inr]] n1 f]
    have "case res2 of Inl e \<Rightarrow> True | Inr y \<Rightarrow> R y"
      using 2(3) by (cases res2) simp_all
    with m 1 2(1,2) Inr f show ?thesis by (simp add: and_then_def)
  qed
qed

lemma frames_weaken: "frames n m Q \<Longrightarrow> (\<And>x. Q x \<Longrightarrow> R x) \<Longrightarrow> frames n m R"
  by (auto simp: frames_def split: prod.splits sum.splits) 

lemma frames_apply_in_place: "n \<le> r \<Longrightarrow> frames n (apply_in_place f col r) (\<lambda>u. True)"
  unfolding apply_in_place_def
  by (intro frames_and_then [OF frames_deref] frames_and_then [OF frames_raise_or_return]
        frames_setitem)

lemma frames_derive: "frames n (derive g r) (\<lambda>r'. n \<le> r')"
  unfolding derive_def
  by (intro frames_and_then [OF frames_deref] frames_and_then [OF frames_raise_or_return]
        frames_new_object)

lemma frames_transform_dataframe_obj:
  "frames n (transform_dataframe_obj U config df) (\<lambda>r. n \<le> r)"
  unfolding transform_dataframe_obj_def
  apply (rule frames_and_then [OF frames_deref])
  apply (simp only: split: if_split)
  apply (intro conjI impI frames_new_object)
  apply (rule frames_and_then [OF frames_derive])
  apply (intro frames_and_then [OF frames_apply_in_place]; (assumption)?)
  apply (intro frames_and_then [OF frames_derive] frames_and_then [OF frames_deref] frames_derive)
  done

text \<open>
  C9. \<open>transform_dataframe\<close> works on a copy: run on a table object in a store, it
  leaves every object that existed before the call, its argument among them, exactly as it
  was (rows, columns and values), whether it returns or raises; what it builds are new
  objects.
\<close>

theorem transform_dataframe_obj_frame:
  assumes "df < length h" and "transform_dataframe_obj U config df h = (res, h')"
  shows "length h \<le> length h' \<and> (\<forall>r < length h. h' ! r = h ! r) \<and> h' ! df = h ! df"
proof -
  note fr = framesD(1,2) [OF frames_transform_dataframe_obj [of "length h" U config df] _ assms(2)]
  have len: "length h \<le> length h'" and t: "take (length h) h' = take (length h) h"
    using fr by simp_all
  have "h' ! r = h ! r" if "r < length h" for r
    using that t nth_take [of r "length h" h'] by simp
  with len assms(1) show ?thesis by simp
qed

theorem transform_dataframe_obj_frame_witness:
  "(0::nat) < length [example_table [example_row ''Shirt'' ''$12.50'' ''4.5 / 5'' ''3 Colors'']]
   \<and> fst (transform_dataframe_obj example_extern TransformConfig 0
             [example_table [example_row ''Shirt'' ''$12.50'' ''4.5 / 5'' ''3 Colors'']]) = Inr 5
   \<and> snd (transform_dataframe_obj example_extern TransformConfig 0
             [example_table [example_row ''Shirt'' ''$12.50'' ''4.5 / 5'' ''3 Colors'']]) ! 0
       = example_table [example_row ''Shirt'' ''$12.50'' ''4.5 / 5'' ''3 Colors'']"
proof -
  let ?T = "example_table [example_row ''Shirt'' ''$12.50'' ''4.5 / 5'' ''3 Colors'']"
  let ?run = "transform_dataframe_obj example_extern TransformConfig 0 [?T]"
  have r: "fst ?run = Inr 5"
    by (simp add: transform_dataframe_obj_def and_then_def deref_def new_object_def derive_def
          raise_or_return_def apply_in_place_def setitem_def
          df_eval field_eval str_eval num_eval exn_eval example_eval)
  have l: "(0::nat) < length [?T]" by simp
  have p: "?run = (fst ?run, snd ?run)" by simp
  from transform_dataframe_obj_frame [OF l p] have "snd ?run ! 0 = [?T] ! 0" by blast
  with r l show ?thesis by simp
qed

section \<open>Properties of the cleaned table\<close>

lemma map_exn_Inr:
  "map_exn g xs = Inr ys \<Longrightarrow> list_all2 (\<lambda>x y. g x = Inr y) xs ys"
  by (induction xs arbitrary: ys) (auto simp: seq_def split: sum.splits)

lemma map_exn_total:
  "(\<And>x. x \<in> set xs \<Longrightarrow> \<exists>y. g x = Inr y) \<Longrightarrow> \<exists>ys. map_exn g xs = Inr ys"
  by (induction xs) (fastforce simp: seq_def)+

lemma apply_column_columns: "apply_column f col df = Inr d \<Longrightarrow> columns d = columns df"
  by (auto simp: apply_column_def set_column_def seq_def split: sum.splits)

lemma apply_column_back:
  assumes "apply_column f col df = Inr d" and "r' \<in> set (rows d)"
  shows "\<exists>r v. r \<in> set (rows df) \<and> f (r ! column_index df col) = Inr v
               \<and> r' = r[column_index df col := v]"
proof -
  from assms(1) obtain vals where
    v: "map_exn (\<lambda>row. f (item df col row)) (rows df) = Inr vals"
    and d: "d = set_column col vals df"
    by (auto simp: apply_column_def series_apply_def seq_def split: sum.splits)
  from map_exn_Inr [OF v]
  have all: "\<forall>(r, y) \<in> set (zip (rows df) vals). f (item df col r) = Inr y"
    by (simp add: list_all2_iff)
  from assms(2) d obtain r y where
    z: "(r, y) \<in> set (zip (rows df) vals)" and r': "r' = r[column_index df col := y]"
    by (auto simp: set_column_def)
  from z have "r \<in> set (rows df)" by (rule set_zip_leftD)
  moreover from all z have "f (r ! column_index df col) = Inr y" by (auto simp: item_def)
  ultimately show ?thesis using r' by blast
qed

lemma apply_column_total:
  assumes "\<And>c. \<exists>v. f c = Inr v"
  shows "\<exists>d. apply_column f col df = Inr d"
proof -
  from map_exn_total [of "rows df" "\<lambda>row. f (item df col row)"] assms
  obtain vals where "map_exn (\<lambda>row. f (item df col row)) (rows df) = Inr vals" by blast
  then show ?thesis by (simp add: apply_column_def series_apply_def seq_def)
qed

lemma keep_first_subset: "set (keep_first seen rs) \<subseteq> set rs"
  by (induction rs arbitrary: seen) auto

lemma cleaning_columns:
  "columns (drop_duplicates (drop_unknown_product (dropna cols d))) = columns d"
  by (simp add: drop_duplicates_def drop_unknown_product_def dropna_def)

lemma cleaning_rows:
  assumes "r \<in> set (rows (drop_duplicates (drop_unknown_product (dropna cols d))))"
  shows "r \<in> set (rows d)" and "\<And>col. col \<in> set cols \<Longrightarrow> \<not> isna (r ! column_index d col)"
    and "r ! column_index d (lit ''Title'') \<noteq> PyStr (lit ''Unknown Product'')"
proof -
  from assms keep_first_subset [of "[]" "rows (drop_unknown_product (dropna cols d))"]
  have "r \<in> set (rows (drop_unknown_product (dropna cols d)))"
    by (auto simp: drop_duplicates_def)
  then have a: "r \<in> set (rows (dropna cols d))"
    and "item (dropna cols d) (lit ''Title'') r \<noteq> PyStr (lit ''Unknown Product'')"
    by (auto simp: drop_unknown_product_def)
  then show "r ! column_index d (lit ''Title'') \<noteq> PyStr (lit ''Unknown Product'')"
    by (simp add: item_def column_index_def dropna_def)
  from a show "r \<in> set (rows d)" by (simp add: dropna_def)
  from a show "\<And>col. col \<in> set cols \<Longrightarrow> \<not> isna (r ! column_index d col)"
    by (auto simp: dropna_def list_all_iff item_def)
qed

lemma takeWhile_neq_less: "x \<in> set xs \<Longrightarrow> length (takeWhile (\<lambda>c. c \<noteq> x) xs) < length xs"
  by (induction xs) auto

lemma column_index_less: "col \<in> set (columns df) \<Longrightarrow> column_index df col < length (columns df)"
  unfolding column_index_def by (rule takeWhile_neq_less)

lemma column_index_nth:
  "column_index df col < length (columns df) \<Longrightarrow> columns df ! column_index df col = col"
  unfolding column_index_def using nth_length_takeWhile [of "\<lambda>c. c \<noteq> col" "columns df"] by simp

lemma column_index_inj:
  assumes "col \<in> set (columns df)" "col \<noteq> col'"
  shows "column_index df col \<noteq> column_index df col'"
proof
  assume e: "column_index df col = column_index df col'"
  from column_index_less [OF assms(1)] have l: "column_index df col < length (columns df)" .
  from column_index_nth [OF l] column_index_nth [of df col'] l e assms(2) show False by simp
qed

lemma column_index_cong: "columns d = columns df \<Longrightarrow> column_index d col = column_index df col"
  by (simp add: column_index_def)

lemma box_Inr:
  assumes "box wrap f c = Inr v"
  shows "(f c = Inr None \<and> v = PyNone) \<or> (\<exists>y. f c = Inr (Some y) \<and> v = wrap y)"
  using assms by (auto simp: box_def seq_def split: sum.splits option.splits)

lemma box_float_typed:
  assumes "box PyFloat f c = Inr v" "\<not> isna v"
  shows "\<exists>x. v = PyFloat x \<and> x \<noteq> NaN"
  using box_Inr [OF assms(1)] assms(2) by (auto simp: isna_def)

lemma to_ascii_chars:
  "x \<in> set (to_ascii U s) \<Longrightarrow> (x \<in> set s \<and> x < 128) \<or> x = 32 \<or> x = 63 \<or> 48 \<le> x"
  by (induction s) (auto split: if_splits option.splits)

lemma c_strip_subset: "set (c_strip s) \<subseteq> set s"
proof -
  have "set (dropWhile c_isspace (rev (dropWhile c_isspace s))) \<subseteq> set (rev (dropWhile c_isspace s))"
    by (auto dest: set_dropWhileD)
  also have "\<dots> \<subseteq> set s" by (auto dest: set_dropWhileD)
  finally show ?thesis by (simp add: c_strip_def)
qed

lemma py_int_isdigit_nonneg:
  assumes "py_int U s = Inr n" "str_isdigit U s"
  shows "0 \<le> n"
proof -
  have no: "45 \<notin> set (c_strip (to_ascii U s))"
  proof
    assume "45 \<in> set (c_strip (to_ascii U s))"
    with c_strip_subset have "45 \<in> set (to_ascii U s)" by blast
    from to_ascii_chars [OF this] have "45 \<in> set s" by simp
    with assms(2) show False by (auto simp: str_isdigit_def list_all_iff is_ascii_digit_def)
  qed
  have "fst (split_sign t) \<Longrightarrow> 45 \<in> set t" for t
    by (cases t) (auto simp: split_sign_def split: if_splits)
  with no have "\<not> fst (split_sign (c_strip (to_ascii U s)))" by blast
  with assms(1) show ?thesis
    by (auto simp: py_int_def Let_def split: prod.splits if_splits)
qed

lemma transform_colors_nonneg:
  assumes "transform_colors U config c = Inr (Some n)"
  shows "0 \<le> n"
proof -
  from assms obtain num where "py_int U num = Inr n" "str_isdigit U num"
    by (auto simp: transform_colors_def try_except_def seq_def isna_def
          split: sum.splits if_splits)
  then show ?thesis by (rule py_int_isdigit_nonneg)
qed

lemma box_colors_typed:
  assumes "box PyInt (transform_colors U config) c = Inr v" "\<not> isna v"
  shows "\<exists>n. v = PyInt n \<and> 0 \<le> n"
  using box_Inr [OF assms(1)] assms(2) transform_colors_nonneg by (auto simp: isna_def)

lemma transform_size_valid:
  "transform_size U config c = Inr (Some s) \<Longrightarrow> s \<in> VALID_SIZES config"
  by (auto simp: transform_size_def try_except_def seq_def Let_def split: sum.splits if_splits)

lemma transform_gender_valid:
  "transform_gender U config c = Inr (Some s) \<Longrightarrow> s \<in> VALID_GENDERS config"
  by (auto simp: transform_gender_def try_except_def seq_def Let_def split: sum.splits if_splits)

lemma box_size_typed:
  assumes "box PyStr (transform_size U config) c = Inr v" "\<not> isna v"
  shows "\<exists>s \<in> VALID_SIZES config. v = PyStr s"
  using box_Inr [OF assms(1)] assms(2) transform_size_valid by (auto simp: isna_def)

lemma box_gender_typed:
  assumes "box PyStr (transform_gender U config) c = Inr v" "\<not> isna v"
  shows "\<exists>s \<in> VALID_GENDERS config. v = PyStr s"
  using box_Inr [OF assms(1)] assms(2) transform_gender_valid by (auto simp: isna_def)

lemma sint32_range: "- 2147483648 \<le> sint (w :: 32 word) \<and> sint w \<le> 2147483647"
  using sint_ge [of w] sint_lt [of w] by simp

lemma to_int32_Inr:
  assumes "to_int32 U assigned c = Inr v"
  shows "\<exists>n m. c = PyInt n \<and> v = PyInt m \<and> - 2147483648 \<le> m \<and> m \<le> 2147483647
               \<and> (- 2147483648 \<le> n \<and> n \<le> 2147483647 \<longrightarrow> m = n)"
proof (cases c)
  case (PyInt n)
  show ?thesis
  proof (cases "- 2147483648 \<le> n \<and> n \<le> 2147483647")
    case True
    with assms PyInt show ?thesis by (auto simp: to_int32_def)
  next
    case False
    with assms PyInt obtain w :: "32 word" where "v = PyInt (sint w)"
      by (auto simp: to_int32_def seq_def split: sum.splits if_splits)
    with PyInt False sint32_range [of w] show ?thesis by auto
  qed
qed (use assms in \<open>simp_all add: to_int32_def\<close>)

lemma transform_dataframe_cases:
  assumes "transform_dataframe U config df = Inr out"
  obtains (unusable) "out = DataFrame required_columns"
  | (cleaned) d1 d2 d3 d4 d5 d6 where
      "\<forall>col \<in> set required_columns. col \<in> set (columns df)"
      "apply_column (box PyFloat (transform_price U config)) (lit ''Price'') df = Inr d1"
      "apply_column (box PyFloat (transform_rating U config)) (lit ''Rating'') d1 = Inr d2"
      "apply_column (box PyInt (transform_colors U config)) (lit ''Colors'') d2 = Inr d3"
      "apply_column (box PyStr (transform_size U config)) (lit ''Size'') d3 = Inr d4"
      "apply_column (box PyStr (transform_gender U config)) (lit ''Gender'') d4 = Inr d5"
      "apply_column (box PyStr (transform_timestamp U config)) (lit ''timestamp'') d5 = Inr d6"
      "astype U (column_values d6 (lit ''Colors'')) (drop_duplicates (drop_unknown_product
         (dropna (map lit [''Title'', ''Price'', ''Rating'', ''Colors'', ''Size'', ''Gender''])
            d6))) = Inr out"
  using assms unfolding transform_dataframe_def seq_def list_all_iff
  by (auto split: if_splits sum.splits)

lemma required_indices:
  assumes "\<forall>col \<in> set required_columns. col \<in> set (columns df)"
  shows "distinct (map (column_index df) required_columns)"
    and "\<forall>col \<in> set required_columns. column_index df col < length (columns df)"
proof -
  have "inj_on (column_index df) (set required_columns)"
    using assms column_index_inj by (intro inj_onI) blast
  moreover have "distinct required_columns"
    by (simp add: required_columns_def lit_def)
  ultimately show "distinct (map (column_index df) required_columns)"
    by (simp add: distinct_map)
  show "\<forall>col \<in> set required_columns. column_index df col < length (columns df)"
    using assms column_index_less by blast
qed

lemma normalised_row:
  fixes df :: dataframe
  defines "iP \<equiv> column_index df (lit ''Price'')"
    and "iR \<equiv> column_index df (lit ''Rating'')"
    and "iC \<equiv> column_index df (lit ''Colors'')"
    and "iS \<equiv> column_index df (lit ''Size'')"
    and "iG \<equiv> column_index df (lit ''Gender'')"
    and "iT \<equiv> column_index df (lit ''timestamp'')"
  assumes len: "\<forall>r \<in> set (rows df). length r = length (columns df)"
    and cols: "\<forall>col \<in> set required_columns. col \<in> set (columns df)"
    and a1: "apply_column fP (lit ''Price'') df = Inr d1"
    and a2: "apply_column fR (lit ''Rating'') d1 = Inr d2"
    and a3: "apply_column fC (lit ''Colors'') d2 = Inr d3"
    and a4: "apply_column fS (lit ''Size'') d3 = Inr d4"
    and a5: "apply_column fG (lit ''Gender'') d4 = Inr d5"
    and a6: "apply_column fT (lit ''timestamp'') d5 = Inr d6"
    and r6: "r6 \<in> set (rows d6)"
  shows "\<exists>r0 vP vR vC vS vG vT.
           r0 \<in> set (rows df)
           \<and> fP (r0 ! iP) = Inr vP \<and> fR (r0 ! iR) = Inr vR \<and> fC (r0 ! iC) = Inr vC
           \<and> fS (r0 ! iS) = Inr vS \<and> fG (r0 ! iG) = Inr vG \<and> fT (r0 ! iT) = Inr vT
           \<and> r6 = r0[iP := vP, iR := vR, iC := vC, iS := vS, iG := vG, iT := vT]"
proof -
  note c1 = apply_column_columns [OF a1]
  note c2 = apply_column_columns [OF a2, unfolded c1]
  note c3 = apply_column_columns [OF a3, unfolded c2]
  note c4 = apply_column_columns [OF a4, unfolded c3]
  note c5 = apply_column_columns [OF a5, unfolded c4]
  note ix = column_index_cong [OF c1] column_index_cong [OF c2] column_index_cong [OF c3]
    column_index_cong [OF c4] column_index_cong [OF c5]
  from required_indices(1) [OF cols]
  have neq: "iP \<noteq> iR" "iP \<noteq> iC" "iP \<noteq> iS" "iP \<noteq> iG" "iP \<noteq> iT"
    "iR \<noteq> iC" "iR \<noteq> iS" "iR \<noteq> iG" "iR \<noteq> iT" "iC \<noteq> iS" "iC \<noteq> iG" "iC \<noteq> iT"
    "iS \<noteq> iG" "iS \<noteq> iT" "iG \<noteq> iT"
    by (simp_all add: required_columns_def iP_def iR_def iC_def iS_def iG_def iT_def)
  from apply_column_back [OF a6 r6] obtain r5 vT where
    r5: "r5 \<in> set (rows d5)" and fT: "fT (r5 ! iT) = Inr vT" and e6: "r6 = r5[iT := vT]"
    by (auto simp: ix iT_def)
  from apply_column_back [OF a5 r5] obtain r4 vG where
    r4: "r4 \<in> set (rows d4)" and fG: "fG (r4 ! iG) = Inr vG" and e5: "r5 = r4[iG := vG]"
    by (auto simp: ix iG_def)
  from apply_column_back [OF a4 r4] obtain r3 vS where
    r3: "r3 \<in> set (rows d3)" and fS: "fS (r3 ! iS) = Inr vS" and e4: "r4 = r3[iS := vS]"
    by (auto simp: ix iS_def)
  from apply_column_back [OF a3 r3] obtain r2 vC where
    r2: "r2 \<in> set (rows d2)" and fC: "fC (r2 ! iC) = Inr vC" and e3: "r3 = r2[iC := vC]"
    by (auto simp: ix iC_def)
  from apply_column_back [OF a2 r2] obtain r1 vR where
    r1: "r1 \<in> set (rows d1)" and fR: "fR (r1 ! iR) = Inr vR" and e2: "r2 = r1[iR := vR]"
    by (auto simp: ix iR_def)
  from apply_column_back [OF a1 r1] obtain r0 vP where
    r0: "r0 \<in> set (rows df)" and fP: "fP (r0 ! iP) = Inr vP" and e1: "r1 = r0[iP := vP]"
    by (auto simp: iP_def)
  have "fR (r0 ! iR) = Inr vR" using fR neq by (simp add: e1)
  moreover have "fC (r0 ! iC) = Inr vC" using fC neq by (simp add: e1 e2)
  moreover have "fS (r0 ! iS) = Inr vS" using fS neq by (simp add: e1 e2 e3)
  moreover have "fG (r0 ! iG) = Inr vG" using fG neq by (simp add: e1 e2 e3 e4)
  moreover have "fT (r0 ! iT) = Inr vT" using fT neq by (simp add: e1 e2 e3 e4 e5)
  moreover have "r6 = r0[iP := vP, iR := vR, iC := vC, iS := vS, iG := vG, iT := vT]"
    by (simp add: e1 e2 e3 e4 e5 e6)
  ultimately show ?thesis using r0 fP by blast
qed

lemma cleaned_rows_typed:
  assumes wf: "wf_dataframe df"
    and run: "transform_dataframe U config df = Inr out"
    and row: "row \<in> set (rows out)"
  shows "length row = length (columns out)
       \<and> \<not> isna (item out (lit ''Title'') row)
       \<and> item out (lit ''Title'') row \<noteq> PyStr (lit ''Unknown Product'')
       \<and> (\<exists>x. item out (lit ''Price'') row = PyFloat x \<and> x \<noteq> NaN)
       \<and> (\<exists>x. item out (lit ''Rating'') row = PyFloat x \<and> x \<noteq> NaN)
       \<and> (\<exists>n. item out (lit ''Colors'') row = PyInt n \<and> - 2147483648 \<le> n \<and> n \<le> 2147483647)
       \<and> (\<exists>s \<in> VALID_SIZES config. item out (lit ''Size'') row = PyStr s)
       \<and> (\<exists>g \<in> VALID_GENDERS config. item out (lit ''Gender'') row = PyStr g)"
  using run
proof (cases rule: transform_dataframe_cases)
  case unusable
  with row show ?thesis by (simp add: DataFrame_def)
next
  case (cleaned d1 d2 d3 d4 d5 d6)
  define iTi where "iTi = column_index df (lit ''Title'')"
  define iP where "iP = column_index df (lit ''Price'')"
  define iR where "iR = column_index df (lit ''Rating'')"
  define iC where "iC = column_index df (lit ''Colors'')"
  define iS where "iS = column_index df (lit ''Size'')"
  define iG where "iG = column_index df (lit ''Gender'')"
  define iT where "iT = column_index df (lit ''timestamp'')"
  note idefs = iTi_def iP_def iR_def iC_def iS_def iG_def iT_def
  define six where
    "six = map lit [''Title'', ''Price'', ''Rating'', ''Colors'', ''Size'', ''Gender'']"
  define d9 where "d9 = drop_duplicates (drop_unknown_product (dropna six d6))"
  define assigned where "assigned = column_values d6 (lit ''Colors'')"
  have cast_all: "apply_column (to_int32 U assigned) (lit ''Colors'') d9 = Inr out"
    using cleaned(8) by (simp only: astype_def d9_def six_def assigned_def)
  from wf have len: "\<forall>r \<in> set (rows df). length r = length (columns df)"
    by (simp add: wf_dataframe_def list_all_iff)
  have c6: "columns d6 = columns df"
    using cleaned(2-7) by (simp add: apply_column_columns)
  have c9: "columns d9 = columns df" by (simp add: d9_def cleaning_columns c6)
  have cout: "columns out = columns df"
    using apply_column_columns [OF cast_all] c9 by simp
  from required_indices [OF cleaned(1)]
  have neq: "iTi \<noteq> iP" "iTi \<noteq> iR" "iTi \<noteq> iC" "iTi \<noteq> iS" "iTi \<noteq> iG" "iTi \<noteq> iT"
    "iP \<noteq> iR" "iP \<noteq> iC" "iP \<noteq> iS" "iP \<noteq> iG" "iP \<noteq> iT"
    "iR \<noteq> iC" "iR \<noteq> iS" "iR \<noteq> iG" "iR \<noteq> iT" "iC \<noteq> iS" "iC \<noteq> iG" "iC \<noteq> iT"
    "iS \<noteq> iG" "iS \<noteq> iT" "iG \<noteq> iT"
    and lt: "iTi < length (columns df)" "iP < length (columns df)" "iR < length (columns df)"
    "iC < length (columns df)" "iS < length (columns df)" "iG < length (columns df)"
    "iT < length (columns df)"
    by (simp_all add: required_columns_def idefs)
  from apply_column_back [OF cast_all row] obtain r9 v where
    r9: "r9 \<in> set (rows d9)" and cast: "to_int32 U assigned (r9 ! iC) = Inr v"
    and e: "row = r9[iC := v]"
    unfolding column_index_cong [OF c9] iC_def by blast
  note clean = cleaning_rows [OF r9 [unfolded d9_def]]
  have na: "\<not> isna (r9 ! iTi)" "\<not> isna (r9 ! iP)" "\<not> isna (r9 ! iR)" "\<not> isna (r9 ! iC)"
    "\<not> isna (r9 ! iS)" "\<not> isna (r9 ! iG)"
    using clean(2) by (simp_all add: column_index_cong [OF c6] idefs six_def)
  have unknown: "r9 ! iTi \<noteq> PyStr (lit ''Unknown Product'')"
    using clean(3) by (simp add: column_index_cong [OF c6] idefs)
  from normalised_row [OF len cleaned(1-7) clean(1)]
  obtain r0 vP vR vC vS vG vT where
    r0: "r0 \<in> set (rows df)"
    and f: "box PyFloat (transform_price U config) (r0 ! iP) = Inr vP"
      "box PyFloat (transform_rating U config) (r0 ! iR) = Inr vR"
      "box PyInt (transform_colors U config) (r0 ! iC) = Inr vC"
      "box PyStr (transform_size U config) (r0 ! iS) = Inr vS"
      "box PyStr (transform_gender U config) (r0 ! iG) = Inr vG"
    and e9: "r9 = r0[iP := vP, iR := vR, iC := vC, iS := vS, iG := vG, iT := vT]"
    unfolding idefs [symmetric] by blast
  from len r0 have l0: "length r0 = length (columns df)" by blast
  have cells: "r9 ! iP = vP" "r9 ! iR = vR" "r9 ! iC = vC" "r9 ! iS = vS" "r9 ! iG = vG"
    using neq lt by (simp_all add: e9 l0)
  have l9: "length r9 = length (columns df)" by (simp add: e9 l0)
  from box_float_typed [OF f(1)] na(2) obtain x where x: "vP = PyFloat x" "x \<noteq> NaN"
    by (auto simp: cells)
  from box_float_typed [OF f(2)] na(3) obtain y where y: "vR = PyFloat y" "y \<noteq> NaN"
    by (auto simp: cells)
  from box_size_typed [OF f(4)] na(5) obtain s where s: "s \<in> VALID_SIZES config" "vS = PyStr s"
    by (auto simp: cells)
  from box_gender_typed [OF f(5)] na(6) obtain g where g: "g \<in> VALID_GENDERS config" "vG = PyStr g"
    by (auto simp: cells)
  from to_int32_Inr [OF cast] obtain n where
    v: "v = PyInt n" "- 2147483648 \<le> n" "n \<le> 2147483647"
    by blast
  have out_cells: "row ! iTi = r9 ! iTi" "row ! iP = PyFloat x" "row ! iR = PyFloat y"
    "row ! iC = PyInt n" "row ! iS = PyStr s" "row ! iG = PyStr g"
    using neq lt l9 cells x y s g v by (simp_all add: e)
  have items: "item out col r = r ! column_index df col" for col r
    by (simp add: item_def column_index_cong [OF cout])
  have "length row = length (columns out)" by (simp add: e l9 cout)
  with out_cells na(1) unknown x(2) y(2) v(2,3) s(1) g(1) show ?thesis
    unfolding items idefs [symmetric] by simp
qed

text \<open>
  C1 (as the code has it). Every record of the table that \<open>transform_dataframe\<close> returns has
  a title that is present and is not \<open>Unknown Product\<close>, a price and a rating that are
  floats other than NaN, a colour count that is an int32, that is an integer from
  -2147483648 to 2147483647, a size in XS, S, M, L, XL, XXL and a gender in Men, Women,
  Unisex. The cleaner checks presence and the two enumerations only: it has no check that
  the title is non-empty, that the price or the colour count is positive, or that the
  rating lies between 0 and 5.
\<close>

theorem transform_dataframe_rows_typed:
  assumes "wf_dataframe df"
    and "transform_dataframe U TransformConfig df = Inr out"
    and "row \<in> set (rows out)"
  shows "\<not> isna (item out (lit ''Title'') row)
       \<and> item out (lit ''Title'') row \<noteq> PyStr (lit ''Unknown Product'')
       \<and> (\<exists>x. item out (lit ''Price'') row = PyFloat x \<and> x \<noteq> NaN)
       \<and> (\<exists>x. item out (lit ''Rating'') row = PyFloat x \<and> x \<noteq> NaN)
       \<and> (\<exists>n. item out (lit ''Colors'') row = PyInt n \<and> - 2147483648 \<le> n \<and> n \<le> 2147483647)
       \<and> (\<exists>s \<in> set (map lit [''XS'', ''S'', ''M'', ''L'', ''XL'', ''XXL'']).
             item out (lit ''Size'') row = PyStr s)
       \<and> (\<exists>g \<in> set (map lit [''Men'', ''Women'', ''Unisex'']).
             item out (lit ''Gender'') row = PyStr g)"
  using cleaned_rows_typed [OF assms] by (simp add: TransformConfig_def)

lemma example_clean:
  "transform_dataframe example_extern TransformConfig
     (example_table [example_row ''Shirt'' ''$12.50'' ''4.5 / 5'' ''3 Colors''])
   = Inr (example_table
       [[PyStr (lit ''Shirt''), PyFloat (Fin 200000), PyFloat (Fin 4.5), PyInt 3,
         PyStr (lit ''M''), PyStr (lit ''Men''), PyStr (lit ''2024-01-01 10:00:00'')]])"
  by (simp add: df_eval field_eval str_eval num_eval exn_eval example_eval)

lemma example_wf:
  "wf_dataframe (example_table [example_row t p r c])"
  by (simp add: wf_dataframe_def example_table_def example_row_def required_columns_def lit_def)

theorem transform_dataframe_rows_typed_witness:
  "wf_dataframe (example_table [example_row ''Shirt'' ''$12.50'' ''4.5 / 5'' ''3 Colors''])
   \<and> transform_dataframe example_extern TransformConfig
         (example_table [example_row ''Shirt'' ''$12.50'' ''4.5 / 5'' ''3 Colors''])
       = Inr (example_table
           [[PyStr (lit ''Shirt''), PyFloat (Fin 200000), PyFloat (Fin 4.5), PyInt 3,
             PyStr (lit ''M''), PyStr (lit ''Men''), PyStr (lit ''2024-01-01 10:00:00'')]])
   \<and> (\<exists>n. item (example_table
           [[PyStr (lit ''Shirt''), PyFloat (Fin 200000), PyFloat (Fin 4.5), PyInt 3,
             PyStr (lit ''M''), PyStr (lit ''Men''), PyStr (lit ''2024-01-01 10:00:00'')]])
          (lit ''Colors'')
          [PyStr (lit ''Shirt''), PyFloat (Fin 200000), PyFloat (Fin 4.5), PyInt 3,
           PyStr (lit ''M''), PyStr (lit ''Men''), PyStr (lit ''2024-01-01 10:00:00'')]
        = PyInt n \<and> - 2147483648 \<le> n \<and> n \<le> 2147483647)"
proof -
  let ?row = "[PyStr (lit ''Shirt''), PyFloat (Fin 200000), PyFloat (Fin 4.5), PyInt 3,
               PyStr (lit ''M''), PyStr (lit ''Men''), PyStr (lit ''2024-01-01 10:00:00'')]"
  have m: "?row \<in> set (rows (example_table [?row]))" by (simp add: example_table_def)
  from transform_dataframe_rows_typed [OF example_wf example_clean m] example_wf example_clean
  show ?thesis by blast
qed

text \<open>
  C1 as stated fails: a raw record with an empty title, the price text \<open>-1\<close>, the rating
  text \<open>7\<close> and \<open>0 Colors\<close> is kept, with an empty title, price -16000, rating 7 and colour
  count 0. And the cast of a count beyond int32 in an int64 column wraps around: a record
  with \<open>3000000000 Colors\<close> is kept with the colour count -1294967296.
\<close>

theorem transform_dataframe_domain_counterexample:
  "transform_dataframe example_extern TransformConfig
     (example_table [example_row '''' ''-1'' ''7'' ''0 Colors''])
   = Inr (example_table
       [[PyStr [], PyFloat (Fin (- 16000)), PyFloat (Fin 7), PyInt 0,
         PyStr (lit ''M''), PyStr (lit ''Men''), PyStr (lit ''2024-01-01 10:00:00'')]])
   \<and> transform_dataframe example_extern TransformConfig
     (example_table [example_row ''Shirt'' ''$12.50'' ''4.5 / 5'' ''3000000000 Colors''])
   = Inr (example_table
       [[PyStr (lit ''Shirt''), PyFloat (Fin 200000), PyFloat (Fin 4.5), PyInt (- 1294967296),
         PyStr (lit ''M''), PyStr (lit ''Men''), PyStr (lit ''2024-01-01 10:00:00'')]])"
proof -
  have "transform_dataframe example_extern TransformConfig
     (example_table [example_row '''' ''-1'' ''7'' ''0 Colors''])
   = Inr (example_table
       [[PyStr [], PyFloat (Fin (- 16000)), PyFloat (Fin 7), PyInt 0,
         PyStr (lit ''M''), PyStr (lit ''Men''), PyStr (lit ''2024-01-01 10:00:00'')]])"
    by (simp add: df_eval field_eval str_eval num_eval exn_eval example_eval)
  moreover have "transform_dataframe example_extern TransformConfig
     (example_table [example_row ''Shirt'' ''$12.50'' ''4.5 / 5'' ''3000000000 Colors''])
   = Inr (example_table
       [[PyStr (lit ''Shirt''), PyFloat (Fin 200000), PyFloat (Fin 4.5), PyInt (- 1294967296),
         PyStr (lit ''M''), PyStr (lit ''Men''), PyStr (lit ''2024-01-01 10:00:00'')]])"
    by (simp add: df_eval field_eval str_eval num_eval exn_eval example_eval)
  ultimately show ?thesis by simp
qed

lemma box_total:
  assumes "\<And>c. \<exists>v. f c = Inr v"
  shows "\<exists>v. box wrap f c = Inr v"
proof -
  from assms obtain v where "f c = Inr v" by blast
  then show ?thesis by (simp add: box_def seq_def)
qed

lemma transform_price_number: "transform_price U config (PyFloat x) = Inr None"
  by (simp add: transform_price_def try_except_def isna_def str_method_def seq_def)

lemma cleaned_table_wf:
  assumes "wf_dataframe df" and "transform_dataframe U config df = Inr out"
  shows "\<forall>r \<in> set (rows out). length r = length (columns out)"
  using cleaned_rows_typed [OF assms] by blast

lemma astype_no_rows:
  assumes "rows d = []"
  shows "\<exists>out. astype U assigned d = Inr out \<and> rows out = []"
  using assms by (simp add: astype_def apply_column_def series_apply_def set_column_def seq_def)

lemma map_exn_Inl:
  "map_exn g xs = Inl e \<Longrightarrow> \<exists>x \<in> set xs. g x = Inl e"
  by (induction xs) (auto simp: seq_def split: sum.splits)

lemma apply_column_Inl:
  assumes "apply_column f col df = Inl e"
  shows "\<exists>r \<in> set (rows df). f (r ! column_index df col) = Inl e"
proof -
  from assms have "map_exn (\<lambda>row. f (item df col row)) (rows df) = Inl e"
    by (auto simp: apply_column_def series_apply_def seq_def split: sum.splits)
  from map_exn_Inl [OF this] show ?thesis by (simp add: item_def)
qed

lemma apply_column_other:
  assumes "apply_column f col df = Inr d" and "r' \<in> set (rows d)"
    and "column_index df col \<noteq> i"
  shows "\<exists>r \<in> set (rows df). r' ! i = r ! i"
proof -
  from apply_column_back [OF assms(1,2)] obtain r v where
    "r \<in> set (rows df)" "r' = r[column_index df col := v]" by blast
  with assms(3) show ?thesis by auto
qed

text \<open>
  C2 (as the code has it). Run on a table it has itself produced, \<open>transform_dataframe\<close>
  returns a table with no rows: the prices of a cleaned table are floats, \<open>transform_price\<close>
  returns None on a float (it has no \<open>replace\<close>), and every row is dropped for its null
  price. So the second table equals the first only when the first had no rows already.
  The second run returns, given that pandas signals a failed \<open>to_datetime\<close> by a
  ValueError and that the timestamps it reads from the cleaned table have a year that
  \<open>strftime\<close> can write, from 1 to 9999.
\<close>

theorem transform_dataframe_twice:
  assumes wf: "wf_dataframe df"
    and run: "transform_dataframe U config df = Inr out"
    and dt: "\<And>c e. to_datetime U c = Inl e \<Longrightarrow> e \<in> {ValueError, AttributeError}"
    and yr: "\<And>row d. row \<in> set (rows out)
               \<Longrightarrow> to_datetime U (item out (lit ''timestamp'') row) = Inr (Some d)
               \<Longrightarrow> 1 \<le> year d \<and> year d \<le> 9999"
  shows "\<exists>out2. transform_dataframe U config out = Inr out2 \<and> rows out2 = []"
proof (cases "df_empty out \<or> \<not> list_all (\<lambda>col. col \<in> set (columns out)) required_columns")
  case True
  then show ?thesis by (simp add: transform_dataframe_def DataFrame_def)
next
  case False
  then have cols: "\<forall>col \<in> set required_columns. col \<in> set (columns out)"
    by (simp add: list_all_iff)
  define six where
    "six = map lit [''Title'', ''Price'', ''Rating'', ''Colors'', ''Size'', ''Gender'']"
  define fP where "fP = box PyFloat (transform_price U config)"
  define fR where "fR = box PyFloat (transform_rating U config)"
  define fC where "fC = box PyInt (transform_colors U config)"
  define fS where "fS = box PyStr (transform_size U config)"
  define fG where "fG = box PyStr (transform_gender U config)"
  define fT where "fT = box PyStr (transform_timestamp U config)"
  note fdefs = fP_def fR_def fC_def fS_def fG_def fT_def
  have tot: "\<exists>v. fP c = Inr v" "\<exists>v. fR c = Inr v" "\<exists>v. fC c = Inr v" "\<exists>v. fS c = Inr v"
    "\<exists>v. fG c = Inr v" for c
  proof -
    show "\<exists>v. fP c = Inr v" unfolding fP_def by (rule box_total) (rule transform_price_returns)
    show "\<exists>v. fR c = Inr v" unfolding fR_def by (rule box_total) (rule transform_rating_returns)
    show "\<exists>v. fC c = Inr v" unfolding fC_def by (rule box_total) (rule transform_colors_returns)
    show "\<exists>v. fS c = Inr v" unfolding fS_def by (rule box_total) (rule transform_size_returns)
    show "\<exists>v. fG c = Inr v" unfolding fG_def by (rule box_total) (rule transform_gender_returns)
  qed
  from apply_column_total [of fP] tot(1) obtain d1 where
    a1: "apply_column fP (lit ''Price'') out = Inr d1" by blast
  from apply_column_total [of fR] tot(2) obtain d2 where
    a2: "apply_column fR (lit ''Rating'') d1 = Inr d2" by blast
  from apply_column_total [of fC] tot(3) obtain d3 where
    a3: "apply_column fC (lit ''Colors'') d2 = Inr d3" by blast
  from apply_column_total [of fS] tot(4) obtain d4 where
    a4: "apply_column fS (lit ''Size'') d3 = Inr d4" by blast
  from apply_column_total [of fG] tot(5) obtain d5 where
    a5: "apply_column fG (lit ''Gender'') d4 = Inr d5" by blast
  note c1 = apply_column_columns [OF a1]
  note c2 = apply_column_columns [OF a2, unfolded c1]
  note c3 = apply_column_columns [OF a3, unfolded c2]
  note c4 = apply_column_columns [OF a4, unfolded c3]
  note c5 = apply_column_columns [OF a5, unfolded c4]
  note ix = column_index_cong [OF c1] column_index_cong [OF c2] column_index_cong [OF c3]
    column_index_cong [OF c4] column_index_cong [OF c5]
  define iP where "iP = column_index out (lit ''Price'')"
  define iT where "iT = column_index out (lit ''timestamp'')"
  from required_indices [OF cols]
  have neq: "iP \<noteq> column_index out (lit ''Rating'')" "iP \<noteq> column_index out (lit ''Colors'')"
    "iP \<noteq> column_index out (lit ''Size'')" "iP \<noteq> column_index out (lit ''Gender'')"
    "iP \<noteq> iT"
    and neqT: "column_index out (lit ''Rating'') \<noteq> iT" "column_index out (lit ''Colors'') \<noteq> iT"
    "column_index out (lit ''Size'') \<noteq> iT" "column_index out (lit ''Gender'') \<noteq> iT"
    and lt: "iP < length (columns out)"
    by (simp_all add: required_columns_def iP_def iT_def)
  have stamp: "\<exists>v. fT (r5 ! iT) = Inr v" if r5: "r5 \<in> set (rows d5)" for r5
  proof -
    from apply_column_other [OF a5 r5, of iT] neqT obtain r4 where
      r4: "r4 \<in> set (rows d4)" "r5 ! iT = r4 ! iT" by (auto simp: ix)
    from apply_column_other [OF a4 r4(1), of iT] neqT obtain r3 where
      r3: "r3 \<in> set (rows d3)" "r4 ! iT = r3 ! iT" by (auto simp: ix)
    from apply_column_other [OF a3 r3(1), of iT] neqT obtain r2 where
      r2: "r2 \<in> set (rows d2)" "r3 ! iT = r2 ! iT" by (auto simp: ix)
    from apply_column_other [OF a2 r2(1), of iT] neqT obtain r1 where
      r1: "r1 \<in> set (rows d1)" "r2 ! iT = r1 ! iT" by (auto simp: ix)
    from apply_column_other [OF a1 r1(1), of iT] neq obtain r0 where
      r0: "r0 \<in> set (rows out)" "r1 ! iT = r0 ! iT" by (auto simp: iP_def)
    have cell: "r5 ! iT = item out (lit ''timestamp'') r0"
      using r4(2) r3(2) r2(2) r1(2) r0(2) by (simp add: item_def iT_def)
    have "\<exists>v. transform_timestamp U config (item out (lit ''timestamp'') r0) = Inr v"
      by (rule transform_timestamp_returns) (use dt yr [OF r0(1)] in blast)+
    then show ?thesis by (auto simp: cell fT_def box_def seq_def)
  qed
  obtain d6 where a6: "apply_column fT (lit ''timestamp'') d5 = Inr d6"
  proof (cases "apply_column fT (lit ''timestamp'') d5")
    case (Inl e)
    from apply_column_Inl [OF this] obtain r5 where
      "r5 \<in> set (rows d5)" "fT (r5 ! iT) = Inl e" by (auto simp: ix iT_def)
    with stamp show ?thesis by fastforce
  next
    case (Inr d6)
    with that show ?thesis .
  qed
  define d9 where "d9 = drop_duplicates (drop_unknown_product (dropna six d6))"
  have c6: "columns d6 = columns out"
    using apply_column_columns [OF a6] c5 by simp
  have "rows d9 = []"
  proof (rule ccontr)
    assume "rows d9 \<noteq> []"
    then obtain r9 where r9: "r9 \<in> set (rows d9)" by (cases "rows d9") auto
    note clean = cleaning_rows [OF r9 [unfolded d9_def]]
    have "lit ''Price'' \<in> set six" by (simp add: six_def)
    from clean(2) [OF this] have na: "\<not> isna (r9 ! iP)"
      by (simp add: column_index_cong [OF c6] iP_def)
    from normalised_row [OF cleaned_table_wf [OF wf run] cols a1 a2 a3 a4 a5 a6 clean(1)]
    obtain r0 vP vR vC vS vG vT where
      r0: "r0 \<in> set (rows out)" and f: "fP (r0 ! iP) = Inr vP"
      and e9: "r9 = r0[iP := vP, column_index out (lit ''Rating'') := vR,
                      column_index out (lit ''Colors'') := vC,
                      column_index out (lit ''Size'') := vS,
                      column_index out (lit ''Gender'') := vG,
                      iT := vT]"
      unfolding iP_def [symmetric] iT_def [symmetric] by blast
    from cleaned_rows_typed [OF wf run r0] obtain x where
      l0: "length r0 = length (columns out)" and x: "r0 ! iP = PyFloat x"
      by (auto simp: item_def iP_def)
    from f x have "vP = PyNone"
      by (simp add: fP_def box_def seq_def transform_price_number)
    moreover have "r9 ! iP = vP" using neq lt by (simp add: e9 l0)
    ultimately show False using na by (simp add: isna_def)
  qed
  from astype_no_rows [OF this] obtain out2 where
    o: "astype U (column_values d6 (lit ''Colors'')) d9 = Inr out2" "rows out2 = []" by blast
  have "transform_dataframe U config out = astype U (column_values d6 (lit ''Colors'')) d9"
    unfolding transform_dataframe_def
    using False
    by (simp only: if_False a1 [unfolded fdefs] a2 [unfolded fdefs] a3 [unfolded fdefs]
          a4 [unfolded fdefs] a5 [unfolded fdefs] a6 [unfolded fdefs] seq_def sum.case
          d9_def six_def)
  with o show ?thesis by simp
qed

theorem transform_dataframe_twice_witness:
  "wf_dataframe (example_table [example_row ''Shirt'' ''$12.50'' ''4.5 / 5'' ''3 Colors''])
   \<and> transform_dataframe example_extern TransformConfig
         (example_table [example_row ''Shirt'' ''$12.50'' ''4.5 / 5'' ''3 Colors''])
       = Inr (example_table
           [[PyStr (lit ''Shirt''), PyFloat (Fin 200000), PyFloat (Fin 4.5), PyInt 3,
             PyStr (lit ''M''), PyStr (lit ''Men''), PyStr (lit ''2024-01-01 10:00:00'')]])
   \<and> to_datetime example_extern (PyStr (lit ''2024-01-01 10:00:00''))
       = Inr (Some \<lparr>year = 2024, month = 1, day = 1, hour = 10, minute = 0, second = 0\<rparr>)
   \<and> (\<exists>out2. transform_dataframe example_extern TransformConfig
         (example_table
           [[PyStr (lit ''Shirt''), PyFloat (Fin 200000), PyFloat (Fin 4.5), PyInt 3,
             PyStr (lit ''M''), PyStr (lit ''Men''), PyStr (lit ''2024-01-01 10:00:00'')]])
         = Inr out2 \<and> rows out2 = [])"
proof -
  let ?row = "[PyStr (lit ''Shirt''), PyFloat (Fin 200000), PyFloat (Fin 4.5), PyInt 3,
               PyStr (lit ''M''), PyStr (lit ''Men''), PyStr (lit ''2024-01-01 10:00:00'')]"
  have stamp: "item (example_table [?row]) (lit ''timestamp'') ?row
               = PyStr (lit ''2024-01-01 10:00:00'')"
    by (simp add: item_def column_index_def example_table_def required_columns_def lit_def)
  have parsed: "to_datetime example_extern (PyStr (lit ''2024-01-01 10:00:00''))
       = Inr (Some \<lparr>year = 2024, month = 1, day = 1, hour = 10, minute = 0, second = 0\<rparr>)"
    by (simp add: example_eval str_eval)
  have dt: "e \<in> {ValueError, AttributeError}" if "to_datetime example_extern c = Inl e" for c e
    using that by (auto simp: example_extern_def dest: iso_datetime_raises)
  have yr: "1 \<le> year d \<and> year d \<le> 9999"
    if "row \<in> set (rows (example_table [?row]))"
      and "to_datetime example_extern (item (example_table [?row]) (lit ''timestamp'') row)
           = Inr (Some d)" for row d
  proof -
    from that(1) have "row = ?row" by (simp add: example_table_def)
    with that(2) stamp parsed show ?thesis by auto
  qed
  have "\<exists>out2. transform_dataframe example_extern TransformConfig (example_table [?row])
         = Inr out2 \<and> rows out2 = []"
    using example_wf example_clean dt yr by (rule transform_dataframe_twice)
  with example_wf example_clean parsed show ?thesis by blast
qed

text \<open>
  C2 as stated fails: the cleaned table of one valid record has one row, and cleaning that
  table again gives a table with no rows.
\<close>

theorem transform_dataframe_idempotence_counterexample:
  "transform_dataframe example_extern TransformConfig
     (example_table [example_row ''Shirt'' ''$12.50'' ''4.5 / 5'' ''3 Colors''])
   = Inr (example_table
       [[PyStr (lit ''Shirt''), PyFloat (Fin 200000), PyFloat (Fin 4.5), PyInt 3,
         PyStr (lit ''M''), PyStr (lit ''Men''), PyStr (lit ''2024-01-01 10:00:00'')]])
   \<and> transform_dataframe example_extern TransformConfig
       (example_table
         [[PyStr (lit ''Shirt''), PyFloat (Fin 200000), PyFloat (Fin 4.5), PyInt 3,
           PyStr (lit ''M''), PyStr (lit ''Men''), PyStr (lit ''2024-01-01 10:00:00'')]])
     = Inr (example_table [])"
proof -
  have "transform_dataframe example_extern TransformConfig
       (example_table
         [[PyStr (lit ''Shirt''), PyFloat (Fin 200000), PyFloat (Fin 4.5), PyInt 3,
           PyStr (lit ''M''), PyStr (lit ''Men''), PyStr (lit ''2024-01-01 10:00:00'')]])
     = Inr (example_table [])"
    by (simp add: df_eval field_eval str_eval num_eval exn_eval example_eval)
  with example_clean show ?thesis by simp
qed

section \<open>The two models of the table cleaner agree\<close>

text \<open>
  Run in a store, \<open>transform_dataframe_obj\<close> raises what \<open>transform_dataframe\<close> raises on
  the value of its argument, and otherwise returns a reference to an object holding the
  table that \<open>transform_dataframe\<close> returns.
\<close>

lemma run_new_object: "and_then (new_object d) f h = f (length h) (h @ [d])"
  by (simp add: and_then_def new_object_def)

lemma run_deref: "and_then (deref r) f h = f (h ! r) h"
  by (simp add: and_then_def deref_def)

lemma run_raise_or_return:
  "and_then (raise_or_return v) f h = (case v of Inl e \<Rightarrow> (Inl e, h) | Inr x \<Rightarrow> f x h)"
  by (simp add: and_then_def raise_or_return_def split: sum.splits)

lemma run_setitem: "and_then (setitem r col vals) f h = f () (h[r := set_column col vals (h ! r)])"
  by (simp add: and_then_def setitem_def)

lemma run_assoc: "and_then (and_then m f) g = and_then m (\<lambda>x. and_then (f x) g)"
  by (rule ext) (simp add: and_then_def split: prod.splits sum.splits)

lemma run_apply_in_place:
  "and_then (apply_in_place f col (length h)) k (h @ [d]) =
     (case apply_column f col d of
        Inl e \<Rightarrow> (Inl e, h @ [d])
      | Inr d' \<Rightarrow> k () (h @ [d']))"
  by (simp add: apply_in_place_def run_assoc run_deref run_raise_or_return run_setitem
        apply_column_def seq_def split: sum.splits)

lemma run_derive:
  "and_then (derive g r) k h =
     (case g (h ! r) of Inl e \<Rightarrow> (Inl e, h) | Inr d \<Rightarrow> k (length h) (h @ [d]))"
  by (simp add: derive_def run_assoc run_deref run_raise_or_return run_new_object
        split: sum.splits)

lemma end_derive:
  "derive g r h = (case g (h ! r) of Inl e \<Rightarrow> (Inl e, h) | Inr d \<Rightarrow> (Inr (length h), h @ [d]))"
  by (simp add: derive_def run_deref run_raise_or_return new_object_def split: sum.splits)

lemma transform_dataframe_obj_result:
  "case transform_dataframe_obj U config df h of
     (Inl e, h') \<Rightarrow> transform_dataframe U config (h ! df) = Inl e
   | (Inr r, h') \<Rightarrow> r < length h' \<and> transform_dataframe U config (h ! df) = Inr (h' ! r)"
proof (cases "df_empty (h ! df) \<or> \<not> list_all (\<lambda>col. col \<in> set (columns (h ! df))) required_columns")
  case True
  then show ?thesis
    by (simp add: transform_dataframe_obj_def transform_dataframe_def run_deref new_object_def)
next
  case False
  have copy: "and_then (derive Inr df) k h = k (length h) (h @ [h ! df])" for k :: "nat \<Rightarrow> nat prog"
    by (simp add: run_derive)
  show ?thesis
    unfolding transform_dataframe_obj_def transform_dataframe_def run_deref
    using False
    apply (simp only: if_False copy run_apply_in_place)
    apply (simp add: seq_def run_derive run_deref end_derive nth_append split: sum.splits)
    done
qed

end
